theory Spec2Isabelle
  imports Complex_Main "HOL-Library.Multiset" "HOL-Library.Sublist" "HOL-Library.Word"
    "HOL-Library.AList" "HOL-Library.Char_ord" "HOL-Library.List_Lexorder"
begin

section \<open>Data model of the inventory export\<close>

text \<open>
  An inventory item is the triple \<open>[id, timestamp, meta]\<close> of the export. \<open>meta\<close> is a
  JavaScript object; every sub-object the code reads is an optional field here
  (\<open>None\<close> is \<open>undefined\<close>). The three resource sub-objects (\<open>resource\<close>,
  \<open>resourceWithLevels\<close>, \<open>modResource\<close>) share one record type that carries every
  property the code reads from any of them, since \<open>filterItems\<close> reads
  \<open>resourceRarity\<close> from whichever of the three comes first.
  Strings are lists of 8-bit characters, numbers of the export (levels, timestamps)
  are integers.
\<close>

record res =
  resourceType :: "string option"
  resourceRarity :: "string option"
  level :: "int option"
  rarity :: "string option"

record coupler =
  portalTitle :: "string option"
  portalLocation :: "string option"

record stored =
  containerId :: string
  containerType :: string

datatype meta = Meta
  (resource: "res option")
  (resourceWithLevels: "res option")
  (modResource: "res option")
  (portalCoupler: "coupler option")
  (storyItem_shortDescription: "string option")
  (flipCard_flipCardType: "string option")
  (timedPowerupResource_designation: "string option")
  (playerPowerupResource_playerPowerupEnum: "string option")
  (container: "container option")
  (storedIn: "stored option")
and container = Container (stackableItems: "stackable list option")
and stackable = Stackable
  (itemGuids: "string list option")
  (exampleGameEntity: "(string \<times> int \<times> meta) option")

type_synonym item = "string \<times> int \<times> meta"

section \<open>JavaScript operators on optional strings\<close>

text \<open>\<open>undefined\<close> and the empty string are the falsy values of an optional string.\<close>

definition truthy :: "string option \<Rightarrow> bool" where
  "truthy v = (case v of None \<Rightarrow> False | Some s \<Rightarrow> s \<noteq> [])"

text \<open>\<open>a || b\<close>\<close>

definition js_or :: "string option \<Rightarrow> string option \<Rightarrow> string option" where
  "js_or a b = (if truthy a then a else b)"

text \<open>\<open>o?.p\<close> on an optional sub-object.\<close>

definition opt_get :: "'a option \<Rightarrow> ('a \<Rightarrow> 'b option) \<Rightarrow> 'b option" where
  "opt_get ob f = (case ob of None \<Rightarrow> None | Some x \<Rightarrow> f x)"

section \<open>extractNestedItems (data.js)\<close>

text \<open>First pass: \<open>itemMap.set(id, item)\<close> for every item, a later id overwriting.\<close>

fun buildItemMap :: "item list \<Rightarrow> (string \<rightharpoonup> item) \<Rightarrow> (string \<rightharpoonup> item)" where
  "buildItemMap [] m = m"
| "buildItemMap (it # its) m = buildItemMap its (m(fst it \<mapsto> it))"

text \<open>\<open>meta.resource?.resourceType || 'CONTAINER'\<close>\<close>

definition containerTypeOf :: "meta \<Rightarrow> string" where
  "containerTypeOf cmeta =
     (case js_or (opt_get (resource cmeta) resourceType) (Some ''CONTAINER'') of
        None \<Rightarrow> ''CONTAINER'' | Some t \<Rightarrow> t)"

text \<open>\<open>{ ...m, _storedIn: { containerId: id, containerType: ... } }\<close>\<close>

fun enrichedMeta :: "meta \<Rightarrow> string \<Rightarrow> meta \<Rightarrow> meta" where
  "enrichedMeta (Meta r rl mr pc si fc tp pp c st) cid cmeta =
     Meta r rl mr pc si fc tp pp c
       (Some \<lparr>containerId = cid, containerType = containerTypeOf cmeta\<rparr>)"

text \<open>Encoding (a): one pushed triple per GUID, cloned from the template.\<close>

fun pushTemplated :: "string \<Rightarrow> meta \<Rightarrow> int \<Rightarrow> meta \<Rightarrow> string list \<Rightarrow> item list \<Rightarrow> item list" where
  "pushTemplated cid cmeta tts tmeta [] expandedItems = expandedItems"
| "pushTemplated cid cmeta tts tmeta (g # gs) expandedItems =
     pushTemplated cid cmeta tts tmeta gs
       (expandedItems @ [(g, tts, enrichedMeta tmeta cid cmeta)])"

text \<open>Encoding (c): GUIDs looked up in the map, an unknown GUID skipped.\<close>

fun pushLookedUp :: "(string \<rightharpoonup> item) \<Rightarrow> string \<Rightarrow> meta \<Rightarrow> string list \<Rightarrow> item list \<Rightarrow> item list" where
  "pushLookedUp itemMap cid cmeta [] expandedItems = expandedItems"
| "pushLookedUp itemMap cid cmeta (g # gs) expandedItems =
     pushLookedUp itemMap cid cmeta gs
       (case itemMap g of
          None \<Rightarrow> expandedItems
        | Some (nid, nts, nmeta) \<Rightarrow> expandedItems @ [(nid, nts, enrichedMeta nmeta cid cmeta)])"

text \<open>The body of the loop over \<open>meta.container.stackableItems\<close>, one descriptor.\<close>

definition pushStackable :: "(string \<rightharpoonup> item) \<Rightarrow> string \<Rightarrow> meta \<Rightarrow> stackable \<Rightarrow> item list \<Rightarrow> item list" where
  "pushStackable itemMap cid cmeta s expandedItems =
     (case (itemGuids s, exampleGameEntity s) of
        (Some gs, Some (tid, tts, tmeta)) \<Rightarrow> pushTemplated cid cmeta tts tmeta gs expandedItems
      | (None, Some (eid, ets, emeta)) \<Rightarrow> expandedItems @ [(eid, ets, enrichedMeta emeta cid cmeta)]
      | (Some gs, None) \<Rightarrow> pushLookedUp itemMap cid cmeta gs expandedItems
      | (None, None) \<Rightarrow> expandedItems)"

fun pushStackables :: "(string \<rightharpoonup> item) \<Rightarrow> string \<Rightarrow> meta \<Rightarrow> stackable list \<Rightarrow> item list \<Rightarrow> item list" where
  "pushStackables itemMap cid cmeta [] expandedItems = expandedItems"
| "pushStackables itemMap cid cmeta (s # ss) expandedItems =
     pushStackables itemMap cid cmeta ss (pushStackable itemMap cid cmeta s expandedItems)"

text \<open>Second pass: push the item, then the contents of its container if it has one.\<close>

fun expandLoop :: "(string \<rightharpoonup> item) \<Rightarrow> item list \<Rightarrow> item list \<Rightarrow> item list" where
  "expandLoop itemMap [] expandedItems = expandedItems"
| "expandLoop itemMap ((iid, ts, m) # its) expandedItems =
     expandLoop itemMap its
       (case opt_get (container m) stackableItems of
          None \<Rightarrow> expandedItems @ [(iid, ts, m)]
        | Some ss \<Rightarrow> pushStackables itemMap iid m ss (expandedItems @ [(iid, ts, m)]))"

definition extractNestedItems :: "item list \<Rightarrow> item list" where
  "extractNestedItems itemArray = expandLoop (buildItemMap itemArray Map.empty) itemArray []"

subsection \<open>What one container contributes, as a list\<close>

definition stackableContents :: "(string \<rightharpoonup> item) \<Rightarrow> string \<Rightarrow> meta \<Rightarrow> stackable \<Rightarrow> item list" where
  "stackableContents itemMap cid cmeta s =
     (case (itemGuids s, exampleGameEntity s) of
        (Some gs, Some (tid, tts, tmeta)) \<Rightarrow> map (\<lambda>g. (g, tts, enrichedMeta tmeta cid cmeta)) gs
      | (None, Some (eid, ets, emeta)) \<Rightarrow> [(eid, ets, enrichedMeta emeta cid cmeta)]
      | (Some gs, None) \<Rightarrow>
          concat (map (\<lambda>g. case itemMap g of None \<Rightarrow> []
                           | Some (nid, nts, nmeta) \<Rightarrow> [(nid, nts, enrichedMeta nmeta cid cmeta)]) gs)
      | (None, None) \<Rightarrow> [])"

definition containerContents :: "(string \<rightharpoonup> item) \<Rightarrow> item \<Rightarrow> item list" where
  "containerContents itemMap it =
     (case it of (iid, ts, m) \<Rightarrow>
        (case opt_get (container m) stackableItems of
           None \<Rightarrow> []
         | Some ss \<Rightarrow> concat (map (stackableContents itemMap iid m) ss)))"

section \<open>Classification and titles (utils.js, constants.js)\<close>

definition MOD_TYPES :: "string list" where
  "MOD_TYPES = [''EXTRA_SHIELD'', ''RES_SHIELD'', ''HEATSINK'', ''LINK_AMPLIFIER'',
     ''MULTIHACK'', ''TRANSMUTER_ATTACK'', ''TURRET'', ''ULTRA_LINK_AMP'', ''FORCE_AMP'']"

definition WEAPON_TYPES :: "string list" where
  "WEAPON_TYPES = [''EMP_BURSTER'', ''FLIP_CARD'', ''ULTRA_STRIKE'']"

definition CUBE_TYPES :: "string list" where
  "CUBE_TYPES = [''POWER_CUBE'', ''BOOSTED_POWER_CUBE'']"

definition CAPSULE_TYPES :: "string list" where
  "CAPSULE_TYPES = [''CAPSULE'', ''KEY_CAPSULE'', ''KINETIC_CAPSULE'',
     ''QUANTUM_CAPSULE'', ''INTEREST_CAPSULE'']"

definition ABBREVIATIONS :: "(string \<times> string) list" where
  "ABBREVIATIONS = [(''VERY_RARE'', ''VR''), (''RARE'', ''R''), (''COMMON'', ''C'')]"

definition SORT_ORDER :: "(string \<times> int) list" where
  "SORT_ORDER = [(''VERY_RARE'', 3), (''RARE'', 2), (''COMMON'', 1), ('''', 0)]"

definition WEAPON_ORDER :: "(string \<times> int) list" where
  "WEAPON_ORDER = [(''EMP_BURSTER'', 0), (''ULTRA_STRIKE'', 1), (''FLIP_CARD'', 2)]"

definition MOD_ORDER :: "(string \<times> int) list" where
  "MOD_ORDER = [(''RES_SHIELD'', 0), (''EXTRA_SHIELD'', 0), (''HEATSINK'', 1), (''MULTIHACK'', 2),
     (''LINK_AMPLIFIER'', 3), (''TRANSMUTER_ATTACK'', 4), (''TRANSMUTER_DEFENSE'', 4),
     (''TURRET'', 5), (''FORCE_AMP'', 6)]"

text \<open>
  \<open>ABBREVIATIONS[rarity] || rarity || ''\<close>. The tables are plain objects read with
  the keys of the export; the properties an object inherits from its prototype
  (\<open>constructor\<close>, \<open>toString\<close>, ...) are not keys of the tables here.
\<close>

definition abbreviateRarity :: "string \<Rightarrow> string" where
  "abbreviateRarity r =
     (case js_or (js_or (map_of ABBREVIATIONS r) (Some r)) (Some '''') of
        None \<Rightarrow> '''' | Some a \<Rightarrow> a)"

text \<open>The argument is \<open>undefined\<close> for an item with no resource type at all.\<close>

definition getDisplayType :: "string option \<Rightarrow> string option" where
  "getDisplayType rt =
     (if rt = Some ''EMITTER_A'' then Some ''Resonators''
      else if rt = Some ''PORTAL_LINK_KEY'' then Some ''Keys''
      else if rt = Some ''MEDIA'' then Some ''Media''
      else if rt = Some ''PORTAL_POWERUP'' \<or> rt = Some ''PLAYER_POWERUP''
        then Some ''Powerups''
      else if rt \<in> Some ` set CAPSULE_TYPES then Some ''Capsules''
      else if rt \<in> Some ` set MOD_TYPES then Some ''Mods''
      else if rt \<in> Some ` set WEAPON_TYPES then Some ''Weapons''
      else if rt \<in> Some ` set CUBE_TYPES then Some ''Cubes''
      else rt)"

text \<open>Decimal text of a number of the export, as a template literal prints an integer.\<close>

fun natDigits :: "nat \<Rightarrow> string" where
  "natDigits n = (if n < 10 then [''0123456789'' ! n]
                  else natDigits (n div 10) @ [''0123456789'' ! (n mod 10)])"

definition numberText :: "int \<Rightarrow> string" where
  "numberText z = (if z < 0 then CHR ''-'' # natDigits (nat (- z)) else natDigits (nat z))"

declare natDigits.simps [simp del]

text \<open>\<open>level || ''\<close> inside a template literal: nothing for a missing or zero level.\<close>

definition levelText :: "int option \<Rightarrow> string" where
  "levelText l = (case l of None \<Rightarrow> '''' | Some z \<Rightarrow> if z = 0 then '''' else numberText z)"

definition displayTitle :: "string \<Rightarrow> meta \<Rightarrow> string" where
  "displayTitle iid m =
     (case modResource m of
        Some mr \<Rightarrow>
          abbreviateRarity (case js_or (rarity mr) (Some '''') of None \<Rightarrow> '''' | Some r \<Rightarrow> r)
      | None \<Rightarrow>
     (case js_or (opt_get (portalCoupler m) portalTitle) None of
        Some t \<Rightarrow> t
      | None \<Rightarrow>
     (case js_or (storyItem_shortDescription m) None of
        Some d \<Rightarrow> d
      | None \<Rightarrow>
     (case js_or (opt_get (resourceWithLevels m) resourceType) None of
        Some ty \<Rightarrow>
          (let lv = levelText (opt_get (resourceWithLevels m) level) in
           if ty \<in> set [''EMITTER_A'', ''POWER_CUBE'', ''EMP_BURSTER'', ''ULTRA_STRIKE'']
           then ''L'' @ lv
           else ty @ '' L'' @ lv)
      | None \<Rightarrow>
     (case js_or (opt_get (resource m) resourceType) None of
        Some ty \<Rightarrow>
          (if ty = ''FLIP_CARD'' \<and> truthy (flipCard_flipCardType m)
             then (case flipCard_flipCardType m of Some f \<Rightarrow> f | None \<Rightarrow> ty)
           else if ty = ''BOOSTED_POWER_CUBE'' then ''Hyper''
           else if ty = ''PORTAL_POWERUP'' \<and> truthy (timedPowerupResource_designation m)
             then (case timedPowerupResource_designation m of Some d \<Rightarrow> d | None \<Rightarrow> ty)
           else if ty = ''PLAYER_POWERUP'' \<and> truthy (playerPowerupResource_playerPowerupEnum m)
             then (case playerPowerupResource_playerPowerupEnum m of Some e \<Rightarrow> e | None \<Rightarrow> ty)
           else ty)
      | None \<Rightarrow> iid)))))"

section \<open>filterItems (data.js)\<close>

text \<open>\<open>filters.rarity\<close> is the value of the rarity select box, empty for "all".\<close>

record filters =
  filterRarity :: "string option"

text \<open>\<open>meta.resource || meta.resourceWithLevels || meta.modResource || {}\<close>; an object is truthy.\<close>

definition firstResource :: "meta \<Rightarrow> res option" where
  "firstResource m =
     (case resource m of Some r \<Rightarrow> Some r
      | None \<Rightarrow> (case resourceWithLevels m of Some r \<Rightarrow> Some r | None \<Rightarrow> modResource m))"

text \<open>\<open>resource.resourceRarity || meta.modResource?.rarity\<close>\<close>

definition resolvedRarity :: "meta \<Rightarrow> string option" where
  "resolvedRarity m =
     js_or (opt_get (firstResource m) resourceRarity) (opt_get (modResource m) rarity)"

text \<open>The callback of \<open>items.filter\<close>.\<close>

definition keepItem :: "filters \<Rightarrow> item \<Rightarrow> bool" where
  "keepItem f it =
     (case it of (iid, ts, m) \<Rightarrow>
        if opt_get (firstResource m) resourceType = Some ''DRONE'' then False
        else if truthy (filterRarity f) \<and> resolvedRarity m \<noteq> filterRarity f then False
        else True)"

definition filterItems :: "item list \<Rightarrow> filters \<Rightarrow> item list" where
  "filterItems its f = filter (keepItem f) its"

section \<open>groupItems (data.js)\<close>

text \<open>
  \<open>gmeta\<close> as the sort reads it; a property that was never assigned is \<open>None\<close>.
  A bucket entry \<open>{id, ts, meta, item}\<close> only repeats the triple, so the item list of
  a bucket holds the triples. A JavaScript \<open>Map\<close> keeps its keys in insertion order
  and is an association list here (\<open>AList.update\<close> replaces in place or appends).
\<close>

record gmeta =
  gmDisplayType :: "string option"
  gmTitle :: string
  gmLevel :: int
  weaponType :: "string option"
  cubeType :: "string option"
  modType :: "string option"
  gmRarity :: "string option"

record bucket =
  items :: "item list"
  gmeta :: gmeta

type_synonym grouped = "(string \<times> bucket) list"
type_synonym typeBuckets = "(string option \<times> grouped) list"

text \<open>\<open>resourceWithLevels?.resourceType || resource?.resourceType || modResource?.resourceType\<close>\<close>

definition rawTypeOf :: "meta \<Rightarrow> string option" where
  "rawTypeOf m =
     js_or (js_or (opt_get (resourceWithLevels m) resourceType) (opt_get (resource m) resourceType))
           (opt_get (modResource m) resourceType)"

definition needsTypeInKey :: "string option \<Rightarrow> bool" where
  "needsTypeInKey displayType = (displayType \<in> Some ` set [''Weapons'', ''Cubes'', ''Mods''])"

text \<open>The template literal prints an undefined \<open>rawType\<close> as \<open>undefined\<close>.\<close>

definition groupKeyOf :: "item \<Rightarrow> string" where
  "groupKeyOf it =
     (case it of (iid, ts, m) \<Rightarrow>
        let rawType = rawTypeOf m; title = displayTitle iid m in
        if needsTypeInKey (getDisplayType rawType)
        then title @ ''|'' @ (case rawType of None \<Rightarrow> ''undefined'' | Some t \<Rightarrow> t)
        else title)"

definition displayTypeOf :: "item \<Rightarrow> string option" where
  "displayTypeOf it = (case it of (iid, ts, m) \<Rightarrow> getDisplayType (rawTypeOf m))"

text \<open>\<open>x || ''\<close> and \<open>x || 0\<close>\<close>

definition orEmpty :: "string option \<Rightarrow> string" where
  "orEmpty v = (case js_or v (Some '''') of None \<Rightarrow> '''' | Some s \<Rightarrow> s)"

definition orZero :: "int option \<Rightarrow> int" where
  "orZero v = (case v of None \<Rightarrow> 0 | Some z \<Rightarrow> z)"

definition newGmeta :: "item \<Rightarrow> gmeta" where
  "newGmeta it =
     (case it of (iid, ts, m) \<Rightarrow>
        let rawType = rawTypeOf m;
            displayType = getDisplayType rawType;
            g = \<lparr>gmDisplayType = displayType, gmTitle = displayTitle iid m, gmLevel = 0,
                 weaponType = None, cubeType = None, modType = None, gmRarity = None\<rparr>
        in if displayType = Some ''Weapons''
             then g\<lparr>weaponType := Some (orEmpty rawType),
                     gmLevel := orZero (opt_get (resourceWithLevels m) level)\<rparr>
           else if displayType = Some ''Cubes''
             then g\<lparr>cubeType := Some (orEmpty rawType),
                     gmLevel := orZero (opt_get (resourceWithLevels m) level)\<rparr>
           else if displayType = Some ''Resonators''
             then g\<lparr>gmLevel := orZero (opt_get (resourceWithLevels m) level)\<rparr>
           else if displayType = Some ''Mods''
             then g\<lparr>modType := Some (orEmpty rawType),
                     gmRarity := Some (orEmpty (opt_get (modResource m) rarity))\<rparr>
           else g)"

text \<open>One round of the loop over \<open>filteredItems\<close>.\<close>

definition groupStep :: "typeBuckets \<Rightarrow> item \<Rightarrow> typeBuckets" where
  "groupStep typeBuckets it =
     (let displayType = displayTypeOf it;
          groupKey = groupKeyOf it;
          grouped = (case map_of typeBuckets displayType of None \<Rightarrow> [] | Some g \<Rightarrow> g);
          grouped' = (case map_of grouped groupKey of
                        None \<Rightarrow> AList.update groupKey \<lparr>items = [it], gmeta = newGmeta it\<rparr> grouped
                      | Some b \<Rightarrow> AList.update groupKey (b\<lparr>items := items b @ [it]\<rparr>) grouped)
      in AList.update displayType grouped' typeBuckets)"

fun groupLoop :: "typeBuckets \<Rightarrow> item list \<Rightarrow> typeBuckets" where
  "groupLoop typeBuckets [] = typeBuckets"
| "groupLoop typeBuckets (it # its) = groupLoop (groupStep typeBuckets it) its"

definition groupItems :: "item list \<Rightarrow> typeBuckets" where
  "groupItems filteredItems = groupLoop [] filteredItems"

text \<open>\<open>typeBuckets.get(displayType)?.get(groupKey)\<close>\<close>

definition bucketOf :: "typeBuckets \<Rightarrow> string option \<Rightarrow> string \<Rightarrow> bucket option" where
  "bucketOf typeBuckets displayType groupKey =
     (case map_of typeBuckets displayType of None \<Rightarrow> None | Some g \<Rightarrow> map_of g groupKey)"

section \<open>Numbers that may be infinite or NaN\<close>

text \<open>
  A distance or a parsed coordinate is a JavaScript number: a finite value, an infinity
  or NaN. Finite values are kept exact (the rounding of doubles is not modelled); the
  sign of a difference of two doubles is the sign of the exact difference, so the
  comparisons the sort makes are the same.
\<close>

datatype jsnum = Num real | PosInf | NegInf | NaN

text \<open>\<open>x - y\<close>\<close>

fun js_sub :: "jsnum \<Rightarrow> jsnum \<Rightarrow> jsnum" where
  "js_sub (Num x) (Num y) = Num (x - y)"
| "js_sub NaN _ = NaN"
| "js_sub _ NaN = NaN"
| "js_sub PosInf PosInf = NaN"
| "js_sub NegInf NegInf = NaN"
| "js_sub PosInf _ = PosInf"
| "js_sub NegInf _ = NegInf"
| "js_sub (Num x) PosInf = NegInf"
| "js_sub (Num x) NegInf = PosInf"

fun isFinite :: "jsnum \<Rightarrow> bool" where
  "isFinite (Num x) = True"
| "isFinite _ = False"

text \<open>Whether a comparator result puts its first argument after its second.\<close>

fun positive :: "jsnum \<Rightarrow> bool" where
  "positive (Num x) = (0 < x)"
| "positive PosInf = True"
| "positive _ = False"

section \<open>decodePortalLocation (utils.js)\<close>

record location =
  lat :: real
  lon :: real

text \<open>\<open>s.split(c)\<close>: the pieces between the separators, one piece for a string without any.\<close>

fun splitOn :: "char \<Rightarrow> string \<Rightarrow> string list" where
  "splitOn c [] = [[]]"
| "splitOn c (x # xs) =
     (if x = c then [] # splitOn c xs
      else (case splitOn c xs of p # ps \<Rightarrow> (x # p) # ps | [] \<Rightarrow> [[x]]))"

text \<open>
  \<open>parseInt(s, 16)\<close> as ECMAScript defines it: leading white space is skipped (the
  white space of ASCII here), then an optional sign, then an optional \<open>0x\<close> or
  \<open>0X\<close>, then the longest run of hexadecimal digits; no digit gives NaN. The integer
  read becomes a number: an infinity from \<open>2^1024 - 2^970\<close> on, where doubles end,
  and otherwise the integer itself (JavaScript rounds it to 53 significant bits, which
  changes nothing below \<open>2^53\<close>, that is up to 13 hexadecimal digits).
\<close>

definition isWhiteSpace :: "char \<Rightarrow> bool" where
  "isWhiteSpace c = (c \<in> set [CHR 0x09, CHR 0x0A, CHR 0x0B, CHR 0x0C, CHR 0x0D, CHR 0x20])"

definition hexDigit :: "char \<Rightarrow> nat option" where
  "hexDigit c =
     (let n = (of_char c :: nat) in
      if 48 \<le> n \<and> n \<le> 57 then Some (n - 48)
      else if 97 \<le> n \<and> n \<le> 102 then Some (n - 87)
      else if 65 \<le> n \<and> n \<le> 70 then Some (n - 55)
      else None)"

fun hexValue :: "nat \<Rightarrow> string \<Rightarrow> nat" where
  "hexValue acc [] = acc"
| "hexValue acc (c # cs) =
     hexValue (16 * acc + (case hexDigit c of None \<Rightarrow> 0 | Some d \<Rightarrow> d)) cs"

definition toNumber :: "int \<Rightarrow> jsnum" where
  "toNumber z =
     (if 2 ^ 1024 - 2 ^ 970 \<le> \<bar>z\<bar> then (if 0 < z then PosInf else NegInf)
      else Num (of_int z))"

definition parseInt16 :: "string \<Rightarrow> jsnum" where
  "parseInt16 s =
     (let S = dropWhile isWhiteSpace s;
          sign = (case S of c # r \<Rightarrow> if c = CHR ''-'' then - 1 else 1 | [] \<Rightarrow> (1 :: int));
          S1 = (case S of c # r \<Rightarrow> if c = CHR ''+'' \<or> c = CHR ''-'' then r else S | [] \<Rightarrow> S);
          S2 = (case S1 of a # b # r \<Rightarrow>
                  if a = CHR ''0'' \<and> (b = CHR ''x'' \<or> b = CHR ''X'') then r else S1
                | _ \<Rightarrow> S1);
          Z = takeWhile (\<lambda>c. hexDigit c \<noteq> None) S2
      in if Z = [] then NaN else toNumber (sign * int (hexValue 0 Z)))"

text \<open>
  \<open>ToInt32\<close>, the operand conversion of \<open>&\<close>: NaN and the infinities are 0, a finite
  number is truncated towards zero and taken modulo \<open>2^32\<close>.
\<close>

fun toInt32 :: "jsnum \<Rightarrow> 32 word" where
  "toInt32 (Num x) = word_of_int (if x < 0 then - \<lfloor>- x\<rfloor> else \<lfloor>x\<rfloor>)"
| "toInt32 _ = 0"

unbundle bit_operations_syntax

text \<open>\<open>(n & 0x80000000) ? n - 0x100000000 : n\<close>\<close>

definition toSigned :: "jsnum \<Rightarrow> jsnum" where
  "toSigned n = (if (toInt32 n AND 0x80000000) \<noteq> 0 then js_sub n (Num 4294967296) else n)"

text \<open>
  The argument is a string here (anything else returns null at the \<open>typeof\<close> test). The
  quotient by \<open>1e6\<close> is the exact real number, which JavaScript rounds to the nearest
  double.
\<close>

definition decodePortalLocation :: "string \<Rightarrow> location option" where
  "decodePortalLocation locationString =
     (if locationString = [] \<or> CHR '','' \<notin> set locationString then None
      else (case splitOn (CHR '','') locationString of
              latHex # lonHex # _ \<Rightarrow>
                (let latE6 = toSigned (parseInt16 latHex);
                     lonE6 = toSigned (parseInt16 lonHex)
                 in (case (latE6, lonE6) of
                       (Num a, Num b) \<Rightarrow> Some \<lparr>lat = a / 1000000, lon = b / 1000000\<rparr>
                     | _ \<Rightarrow> None))
            | _ \<Rightarrow> None))"

section \<open>Sorting (data.js)\<close>

text \<open>
  \<open>Array.prototype.sort\<close> belongs to the engine. ECMAScript requires it to be stable,
  and with a consistent comparator every stable sort returns the same array, so it is
  modelled by a stable insertion sort. \<open>after x y\<close> says that the comparator gave a
  positive number for \<open>(x, y)\<close>; a NaN result counts as 0.
\<close>

fun insertBy :: "('a \<Rightarrow> 'a \<Rightarrow> bool) \<Rightarrow> 'a \<Rightarrow> 'a list \<Rightarrow> 'a list" where
  "insertBy after x [] = [x]"
| "insertBy after x (y # ys) = (if after x y then y # insertBy after x ys else x # y # ys)"

fun sortBy :: "('a \<Rightarrow> 'a \<Rightarrow> bool) \<Rightarrow> 'a list \<Rightarrow> 'a list" where
  "sortBy after [] = []"
| "sortBy after (x # xs) = insertBy after x (sortBy after xs)"

definition arraySort :: "('a \<Rightarrow> 'a \<Rightarrow> int) \<Rightarrow> 'a list \<Rightarrow> 'a list" where
  "arraySort cmp xs = sortBy (\<lambda>a b. 0 < cmp a b) xs"

definition arraySortNum :: "('a \<Rightarrow> 'a \<Rightarrow> jsnum) \<Rightarrow> 'a list \<Rightarrow> 'a list" where
  "arraySortNum cmp xs = sortBy (\<lambda>a b. positive (cmp a b)) xs"

type_synonym entry = "string \<times> bucket"

text \<open>\<open>String.prototype.localeCompare\<close> depends on the locale: a parameter \<open>lc\<close>.\<close>

type_synonym collation = "string \<Rightarrow> string \<Rightarrow> int"

text \<open>\<open>a[0].split('|')[0]\<close>\<close>

definition titleOfKey :: "string \<Rightarrow> string" where
  "titleOfKey k = (case splitOn (CHR ''|'') k of t # _ \<Rightarrow> t | [] \<Rightarrow> [])"

text \<open>\<open>TABLE[key] ?? 9\<close>\<close>

definition tableRank :: "(string \<times> int) list \<Rightarrow> string option \<Rightarrow> int" where
  "tableRank tbl k = (case opt_get k (map_of tbl) of None \<Rightarrow> 9 | Some n \<Rightarrow> n)"

definition weaponsCompare :: "collation \<Rightarrow> entry \<Rightarrow> entry \<Rightarrow> int" where
  "weaponsCompare lc a b =
     (let gmA = gmeta (snd a); gmB = gmeta (snd b);
          orderA = tableRank WEAPON_ORDER (weaponType gmA);
          orderB = tableRank WEAPON_ORDER (weaponType gmB)
      in if orderA \<noteq> orderB then orderA - orderB
         else let levelA = gmLevel gmA; levelB = gmLevel gmB
              in if levelA \<noteq> levelB then levelB - levelA
                 else lc (titleOfKey (fst a)) (titleOfKey (fst b)))"

definition resonatorsCompare :: "entry \<Rightarrow> entry \<Rightarrow> int" where
  "resonatorsCompare a b =
     (let levelA = gmLevel (gmeta (snd a)); levelB = gmLevel (gmeta (snd b))
      in levelB - levelA)"

definition cubesCompare :: "collation \<Rightarrow> entry \<Rightarrow> entry \<Rightarrow> int" where
  "cubesCompare lc a b =
     (let typeA = orEmpty (cubeType (gmeta (snd a)));
          typeB = orEmpty (cubeType (gmeta (snd b)))
      in if typeA \<noteq> typeB then lc typeA typeB
         else let levelA = gmLevel (gmeta (snd a)); levelB = gmLevel (gmeta (snd b))
              in levelB - levelA)"

text \<open>\<open>SORT_ORDER[rarity] || 0\<close>\<close>

definition rarityRank :: "string \<Rightarrow> int" where
  "rarityRank r = (case map_of SORT_ORDER r of None \<Rightarrow> 0 | Some n \<Rightarrow> n)"

definition modsCompare :: "collation \<Rightarrow> entry \<Rightarrow> entry \<Rightarrow> int" where
  "modsCompare lc a b =
     (let typeA = orEmpty (modType (gmeta (snd a)));
          typeB = orEmpty (modType (gmeta (snd b)));
          orderA = tableRank MOD_ORDER (Some typeA);
          orderB = tableRank MOD_ORDER (Some typeB)
      in if orderA \<noteq> orderB then orderA - orderB
         else let rarityA = orEmpty (gmRarity (gmeta (snd a)));
                  rarityB = orEmpty (gmRarity (gmeta (snd b)));
                  rarityOrderA = rarityRank rarityB;
                  rarityOrderB = rarityRank rarityA
              in if rarityOrderA \<noteq> rarityOrderB then rarityOrderA - rarityOrderB
                 else if typeA \<noteq> typeB then lc typeA typeB
                 else lc (titleOfKey (fst a)) (titleOfKey (fst b)))"

definition powerupsCompare :: "collation \<Rightarrow> entry \<Rightarrow> entry \<Rightarrow> int" where
  "powerupsCompare lc a b =
     (let countA = int (length (items (snd a))); countB = int (length (items (snd b)))
      in if countA \<noteq> countB then countB - countA
         else lc (titleOfKey (fst a)) (titleOfKey (fst b)))"

definition defaultCompare :: "collation \<Rightarrow> entry \<Rightarrow> entry \<Rightarrow> int" where
  "defaultCompare lc a b = lc (titleOfKey (fst a)) (titleOfKey (fst b))"

subsection \<open>sortKeys\<close>

record directions =
  alpha :: string
  count :: string
  time :: string
  distance :: string

record sortConfig =
  mode :: string
  directions :: directions

definition keysCountCompare :: "string \<Rightarrow> entry \<Rightarrow> entry \<Rightarrow> int" where
  "keysCountCompare dir a b =
     (let countA = int (length (items (snd a))); countB = int (length (items (snd b)))
      in if dir = ''desc'' then countB - countA else countA - countB)"

text \<open>\<open>items.reduce((max, item) => Math.max(max, Number(item.ts) || 0), 0)\<close>\<close>

definition latestTs :: "entry \<Rightarrow> int" where
  "latestTs e = foldl (\<lambda>mx it. max mx (fst (snd it))) 0 (items (snd e))"

definition keysTimeCompare :: "string \<Rightarrow> entry \<Rightarrow> entry \<Rightarrow> int" where
  "keysTimeCompare dir a b =
     (let timeA = latestTs a; timeB = latestTs b
      in if dir = ''desc'' then timeB - timeA else timeA - timeB)"

text \<open>
  \<open>haversineKm\<close> (utils.js) is floating-point trigonometry; its result, which can be
  NaN when rounding pushes the haversine term past 1, is the parameter \<open>hav\<close>.
\<close>

type_synonym haversine = "real \<Rightarrow> real \<Rightarrow> real \<Rightarrow> real \<Rightarrow> jsnum"

text \<open>
  The local \<open>location\<close> of \<open>getDistance\<close>: the decoded \<open>portalLocation\<close> of the first
  item of the group, null when there is no first item, no non-empty location string,
  or the string does not decode.
\<close>

definition firstKeyLocation :: "entry \<Rightarrow> location option" where
  "firstKeyLocation e =
     (let locationString =
            (case items (snd e) of [] \<Rightarrow> None
             | (iid, ts, m) # _ \<Rightarrow> opt_get (portalCoupler m) portalLocation)
      in case locationString of None \<Rightarrow> None
         | Some s \<Rightarrow> if s = [] then None else decodePortalLocation s)"

definition getDistance :: "haversine \<Rightarrow> location \<Rightarrow> entry \<Rightarrow> jsnum" where
  "getDistance hav userLocation e =
     (case firstKeyLocation e of
        None \<Rightarrow> PosInf
      | Some l \<Rightarrow>
          (let km = hav (lat userLocation) (lon userLocation) (lat l) (lon l)
           in if isFinite km then km else PosInf))"

definition keysDistanceCompare :: "haversine \<Rightarrow> location \<Rightarrow> string \<Rightarrow> entry \<Rightarrow> entry \<Rightarrow> jsnum" where
  "keysDistanceCompare hav userLocation dir a b =
     (let distA = getDistance hav userLocation a; distB = getDistance hav userLocation b
      in if dir = ''desc'' then js_sub distB distA else js_sub distA distB)"

definition keysAlphaCompare :: "collation \<Rightarrow> string \<Rightarrow> entry \<Rightarrow> entry \<Rightarrow> int" where
  "keysAlphaCompare lc dir a b =
     (let titleA = titleOfKey (fst a); titleB = titleOfKey (fst b)
      in if dir = ''desc'' then lc titleB titleA else lc titleA titleB)"

definition sortKeys :: "collation \<Rightarrow> haversine \<Rightarrow> entry list \<Rightarrow> sortConfig \<Rightarrow> location option \<Rightarrow> entry list" where
  "sortKeys lc hav entries cfg userLocation =
     (if mode cfg = ''count'' then arraySort (keysCountCompare (count (directions cfg))) entries
      else if mode cfg = ''time'' then arraySort (keysTimeCompare (time (directions cfg))) entries
      else (case (if mode cfg = ''distance'' then userLocation else None) of
              Some ul \<Rightarrow>
                arraySortNum (keysDistanceCompare hav ul (distance (directions cfg))) entries
            | None \<Rightarrow> arraySort (keysAlphaCompare lc (alpha (directions cfg))) entries))"

subsection \<open>sortTypeGroups\<close>

definition sortTypeGroups :: "collation \<Rightarrow> haversine \<Rightarrow> entry list \<Rightarrow> string \<Rightarrow> sortConfig \<Rightarrow> location option \<Rightarrow> entry list" where
  "sortTypeGroups lc hav entries displayType cfg userLocation =
     (if displayType = ''Keys'' then sortKeys lc hav entries cfg userLocation
      else if displayType = ''Weapons'' then arraySort (weaponsCompare lc) entries
      else if displayType = ''Resonators'' then arraySort resonatorsCompare entries
      else if displayType = ''Cubes'' then arraySort (cubesCompare lc) entries
      else if displayType = ''Mods'' then arraySort (modsCompare lc) entries
      else if displayType = ''Powerups'' then arraySort (powerupsCompare lc) entries
      else arraySort (defaultCompare lc) entries)"

text \<open>\<open>Array.from(grouped.entries())\<close> of one display type, as the renderer passes it.\<close>

definition entriesOf :: "typeBuckets \<Rightarrow> string \<Rightarrow> entry list" where
  "entriesOf typeBuckets displayType =
     (case map_of typeBuckets (Some displayType) of None \<Rightarrow> [] | Some g \<Rightarrow> g)"

text \<open>A collation for examples: strings compared by character code.\<close>

definition codeCompare :: collation where
  "codeCompare a b = (if a < b then - 1 else if a = b then 0 else 1)"

subsection \<open>Orders the sort is measured against\<close>


text \<open>Weapons: type rank ascending, then level descending, then title ascending.\<close>

definition weaponRank :: "entry \<Rightarrow> int" where
  "weaponRank e = tableRank WEAPON_ORDER (weaponType (gmeta (snd e)))"


text \<open>Distances in ascending order, positive infinity above every finite distance.\<close>

fun distLe :: "jsnum \<Rightarrow> jsnum \<Rightarrow> bool" where
  "distLe (Num x) (Num y) = (x \<le> y)"
| "distLe _ PosInf = True"
| "distLe _ _ = False"


subsection \<open>Example inventory\<close>

definition plainRes :: "string \<Rightarrow> res" where
  "plainRes t = \<lparr>resourceType = Some t, resourceRarity = None, level = None, rarity = None\<rparr>"

definition capsuleMeta :: "stackable list \<Rightarrow> meta" where
  "capsuleMeta ss =
     Meta (Some (plainRes ''CAPSULE'')) None None None None None None None
       (Some (Container (Some ss))) None"

definition cubeMeta :: meta where
  "cubeMeta = Meta None
     (Some \<lparr>resourceType = Some ''POWER_CUBE'', resourceRarity = None, level = Some 5, rarity = None\<rparr>)
     None None None None None None None None"

definition exCapsule :: item where
  "exCapsule = (''c1'', 100, capsuleMeta [Stackable None (Some (''e1'', 7, cubeMeta))])"

definition exPlain :: item where
  "exPlain = (''p1'', 200, cubeMeta)"

definition shieldMeta :: "string \<Rightarrow> meta" where
  "shieldMeta r = Meta None None
     (Some \<lparr>resourceType = Some ''RES_SHIELD'', resourceRarity = None, level = None, rarity = Some r\<rparr>)
     None None None None None None None"

definition exRareShield :: item where
  "exRareShield = (''s1'', 300, shieldMeta ''RARE'')"

definition exFilter :: filters where
  "exFilter = \<lparr>filterRarity = Some ''RARE''\<rparr>"

definition exPlain2 :: item where
  "exPlain2 = (''p2'', 250, cubeMeta)"

definition exRareHeatsink :: item where
  "exRareHeatsink = (''h1'', 310, Meta None None
     (Some \<lparr>resourceType = Some ''HEATSINK'', resourceRarity = None, level = None, rarity = Some ''RARE''\<rparr>)
     None None None None None None None)"

definition exPortalPowerup :: item where
  "exPortalPowerup = (''f1'', 400,
     Meta (Some (plainRes ''PORTAL_POWERUP'')) None None None None None (Some ''FRACK'') None None None)"

definition exPlayerPowerup :: item where
  "exPlayerPowerup = (''f2'', 410,
     Meta (Some (plainRes ''PLAYER_POWERUP'')) None None None None None None (Some ''FRACK'') None None)"



definition keyMeta :: "string \<Rightarrow> string option \<Rightarrow> meta" where
  "keyMeta title loc = Meta (Some (plainRes ''PORTAL_LINK_KEY'')) None None
     (Some \<lparr>portalTitle = Some title, portalLocation = loc\<rparr>)
     None None None None None None"

definition exKeys :: "item list" where
  "exKeys = [(''k1'', 500, keyMeta ''Beta'' (Some ''0000000a,fffffff6'')),
             (''k2'', 510, keyMeta ''Alpha'' None)]"

definition exConfig :: "string \<Rightarrow> string \<Rightarrow> sortConfig" where
  "exConfig m d = \<lparr>mode = m, directions = \<lparr>alpha = d, count = d, time = d, distance = d\<rparr>\<rparr>"

definition exLocation :: location where
  "exLocation = \<lparr>lat = 0, lon = 0\<rparr>"

text \<open>A stand-in for \<open>haversineKm\<close> in examples: the sum of the coordinate differences.\<close>

definition exHaversine :: haversine where
  "exHaversine lat1 lon1 lat2 lon2 = Num (\<bar>lat2 - lat1\<bar> + \<bar>lon2 - lon1\<bar>)"

definition exBetaEntry :: entry where
  "exBetaEntry =
     (''Beta'', \<lparr>items = [(''k1'', 500, keyMeta ''Beta'' (Some ''0000000a,fffffff6''))],
                gmeta = \<lparr>gmDisplayType = Some ''Keys'', gmTitle = ''Beta'', gmLevel = 0,
                          weaponType = None, cubeType = None, modType = None, gmRarity = None\<rparr>\<rparr>)"

definition exAlphaEntry :: entry where
  "exAlphaEntry =
     (''Alpha'', \<lparr>items = [(''k2'', 510, keyMeta ''Alpha'' None)],
                 gmeta = \<lparr>gmDisplayType = Some ''Keys'', gmTitle = ''Alpha'', gmLevel = 0,
                           weaponType = None, cubeType = None, modType = None, gmRarity = None\<rparr>\<rparr>)"

definition exBucket :: bucket where
  "exBucket = \<lparr>items = [exPlain], gmeta = newGmeta exPlain\<rparr>"

section \<open>extractNestedItems: order of the output\<close>

lemma pushTemplated_eq:
  "pushTemplated cid cmeta tts tmeta gs acc =
     acc @ map (\<lambda>g. (g, tts, enrichedMeta tmeta cid cmeta)) gs"
  by (induction gs arbitrary: acc) simp_all

lemma pushLookedUp_eq:
  "pushLookedUp im cid cmeta gs acc =
     acc @ concat (map (\<lambda>g. case im g of None \<Rightarrow> []
                        | Some (nid, nts, nmeta) \<Rightarrow> [(nid, nts, enrichedMeta nmeta cid cmeta)]) gs)"
  by (induction gs arbitrary: acc) (simp_all split: option.splits)

lemma pushStackable_eq:
  "pushStackable im cid cmeta s acc = acc @ stackableContents im cid cmeta s"
  by (simp add: pushStackable_def stackableContents_def pushTemplated_eq pushLookedUp_eq
           split: option.splits prod.splits)

lemma pushStackables_eq:
  "pushStackables im cid cmeta ss acc = acc @ concat (map (stackableContents im cid cmeta) ss)"
  by (induction ss arbitrary: acc) (simp_all add: pushStackable_eq)

lemma expandLoop_eq:
  "expandLoop im its acc = acc @ concat (map (\<lambda>it. it # containerContents im it) its)"
proof (induction its arbitrary: acc)
  case Nil
  show ?case by simp
next
  case (Cons it its)
  obtain iid ts m where it: "it = (iid, ts, m)" by (cases it) auto
  show ?case
    by (simp add: it Cons.IH containerContents_def pushStackables_eq split: option.splits)
qed

lemma extractNestedItems_concat:
  "extractNestedItems xs =
     concat (map (\<lambda>it. it # containerContents (buildItemMap xs Map.empty) it) xs)"
  by (simp add: extractNestedItems_def expandLoop_eq)

lemma subseq_concat_cons: "subseq xs (concat (map (\<lambda>x. x # f x) xs))"
proof (induction xs)
  case Nil
  show ?case by simp
next
  case (Cons x xs)
  have "subseq xs (f x @ concat (map (\<lambda>x. x # f x) xs))"
    using Cons.IH by (rule subseq_drop_many)
  then show ?case by simp
qed

lemma length_concat_cons:
  "length (concat (map (\<lambda>x. x # f x) xs)) = length xs + sum_list (map (\<lambda>x. length (f x)) xs)"
  by (induction xs) simp_all

lemma concat_cons_same_length:
  "(length (concat (map (\<lambda>x. x # f x) xs)) = length xs) = (\<forall>x\<in>set xs. f x = [])"
  by (induction xs) (auto simp: length_concat_cons)

lemma concat_cons_id: "(concat (map (\<lambda>x. x # f x) xs) = xs) = (\<forall>x\<in>set xs. f x = [])"
proof
  assume "concat (map (\<lambda>x. x # f x) xs) = xs"
  then have "length (concat (map (\<lambda>x. x # f x) xs)) = length xs" by simp
  then show "\<forall>x\<in>set xs. f x = []" by (simp only: concat_cons_same_length)
next
  assume "\<forall>x\<in>set xs. f x = []"
  then show "concat (map (\<lambda>x. x # f x) xs) = xs" by (induction xs) simp_all
qed

lemma set_concat_cons: "set xs \<subseteq> set (concat (map (\<lambda>x. x # f x) xs))"
  by (induction xs) auto

text \<open>
  C1 (amended). The output of \<open>extractNestedItems\<close> is, for each original triple in
  the original order, that triple immediately followed by the triples synthesized from
  its own container, in the order of the stack descriptors and of their GUIDs. The
  original triples therefore occur in their original order, but interleaved with the
  synthesized ones, not ahead of all of them.
\<close>

theorem extractNestedItems_interleaved:
  "extractNestedItems xs =
     concat (map (\<lambda>it. it # containerContents (buildItemMap xs Map.empty) it) xs)
   \<and> subseq xs (extractNestedItems xs)"
  by (simp add: extractNestedItems_concat subseq_concat_cons)

text \<open>
  C1 as stated fails: a capsule holding one cube, followed by a plain item. The
  synthesized cube is pushed right after its capsule and before the plain item, so the
  first two entries of the output are not the two originals.
\<close>

theorem extractNestedItems_originals_first_counterexample:
  "extractNestedItems [exCapsule, exPlain] =
     [exCapsule, (''e1'', 7, enrichedMeta cubeMeta ''c1'' (snd (snd exCapsule))), exPlain]
   \<and> take (length [exCapsule, exPlain]) (extractNestedItems [exCapsule, exPlain])
       \<noteq> [exCapsule, exPlain]"
  by (simp add: extractNestedItems_def exCapsule_def exPlain_def capsuleMeta_def cubeMeta_def
      opt_get_def pushStackable_def)

section \<open>extractNestedItems run on its own output\<close>

lemma dom_buildItemMap: "dom (buildItemMap xs m) = dom m \<union> fst ` set xs"
  by (induction xs arbitrary: m) auto

lemma stackableContents_mono:
  "stackableContents im cid cm s \<noteq> [] \<Longrightarrow> dom im \<subseteq> dom im' \<Longrightarrow>
     stackableContents im' cid cm s \<noteq> []"
  by (auto simp: stackableContents_def split: option.splits prod.splits) fast

lemma containerContents_mono:
  "containerContents im it \<noteq> [] \<Longrightarrow> dom im \<subseteq> dom im' \<Longrightarrow> containerContents im' it \<noteq> []"
  by (auto simp: containerContents_def split: option.splits prod.splits)
     (meson stackableContents_mono)

lemma extract_fixed_iff:
  "(extractNestedItems xs = xs) =
     (\<forall>it\<in>set xs. containerContents (buildItemMap xs Map.empty) it = [])"
  by (simp only: extractNestedItems_concat concat_cons_id)

lemma extract_length_iff:
  "(length (extractNestedItems xs) = length xs) =
     (\<forall>it\<in>set xs. containerContents (buildItemMap xs Map.empty) it = [])"
  by (simp only: extractNestedItems_concat concat_cons_same_length)

lemma length_extract_ge: "length xs \<le> length (extractNestedItems xs)"
  by (simp add: extractNestedItems_concat length_concat_cons)

lemma rerun_same_length_iff:
  "(length (extractNestedItems (extractNestedItems xs)) = length (extractNestedItems xs))
     = (extractNestedItems xs = xs)"
proof
  assume same: "length (extractNestedItems (extractNestedItems xs)) = length (extractNestedItems xs)"
  let ?ys = "extractNestedItems xs"
  have sub: "set xs \<subseteq> set ?ys"
    by (simp only: extractNestedItems_concat set_concat_cons)
  have doms: "dom (buildItemMap xs Map.empty) \<subseteq> dom (buildItemMap ?ys Map.empty)"
    using sub by (auto simp: dom_buildItemMap)
  have none: "\<forall>it\<in>set ?ys. containerContents (buildItemMap ?ys Map.empty) it = []"
    using same by (simp only: extract_length_iff)
  have "\<forall>it\<in>set xs. containerContents (buildItemMap xs Map.empty) it = []"
  proof
    fix it assume "it \<in> set xs"
    then have "containerContents (buildItemMap ?ys Map.empty) it = []"
      using sub none by blast
    then show "containerContents (buildItemMap xs Map.empty) it = []"
      using containerContents_mono[OF _ doms] by blast
  qed
  then show "extractNestedItems xs = xs" by (simp only: extract_fixed_iff)
next
  assume "extractNestedItems xs = xs"
  then show "length (extractNestedItems (extractNestedItems xs)) = length (extractNestedItems xs)"
    by simp
qed

text \<open>
  C3 (amended). Running \<open>extractNestedItems\<close> again on its own output never shrinks the
  list, and it adds nothing exactly when the first run synthesized nothing (its output
  was its input). The original container triples stay in the output with their
  \<open>container\<close> sub-record, so a second run unpacks them again.
\<close>

theorem extractNestedItems_rerun:
  "length (extractNestedItems xs) \<le> length (extractNestedItems (extractNestedItems xs))
   \<and> ((length (extractNestedItems (extractNestedItems xs)) = length (extractNestedItems xs))
        = (extractNestedItems xs = xs))"
  by (simp only: length_extract_ge rerun_same_length_iff simp_thms)

text \<open>
  C3 as stated fails: one capsule holding one cube expands to two triples, and the second
  run over these two yields three.
\<close>

theorem extractNestedItems_idempotent_counterexample:
  "length (extractNestedItems [exCapsule]) = 2
   \<and> length (extractNestedItems (extractNestedItems [exCapsule])) = 3"
  by (simp add: extractNestedItems_def exCapsule_def capsuleMeta_def cubeMeta_def
      opt_get_def pushStackable_def)

section \<open>decodePortalLocation\<close>

lemma bit31_iff:
  assumes "0 \<le> n" "n < 2 ^ 32"
  shows "((word_of_int n :: 32 word) AND 0x80000000 \<noteq> 0) = (2 ^ 31 \<le> n)"
proof -
  have e: "(0x80000000 :: 32 word) = 2 ^ 31" by simp
  have a: "((word_of_int n :: 32 word) AND 2 ^ 31 = 0) \<longleftrightarrow> \<not> bit (word_of_int n :: 32 word) 31"
    by (rule and_exp_eq_0_iff_not_bit)
  have "((word_of_int n :: 32 word) AND 2 ^ 31 \<noteq> 0) = bit (word_of_int n :: 32 word) 31"
    using a by blast
  also have "\<dots> = bit n 31" by (simp add: bit_word_of_int_iff)
  also have "\<dots> = odd (n div 2 ^ 31)" by (simp add: bit_iff_odd)
  also have "\<dots> = (2 ^ 31 \<le> n)"
  proof (cases "2 ^ 31 \<le> n")
    case True
    then have "n div 2 ^ 31 = 1" using assms by (simp add: div_pos_pos_trivial int_div_pos_eq [of n "2^31" 1 "n - 2^31"])
    then show ?thesis using True by simp
  next
    case False
    then have "n div 2 ^ 31 = 0" using assms by simp
    then show ?thesis using False by simp
  qed
  finally show ?thesis by (simp only: e)
qed

lemma sint_of_pattern:
  assumes "0 \<le> n" "n < 2 ^ 32"
  shows "sint (word_of_int n :: 32 word) = (if 2 ^ 31 \<le> n then n - 2 ^ 32 else n)"
proof -
  have u: "uint (word_of_int n :: 32 word) = n"
    using assms by (simp add: uint_word_of_int_eq take_bit_int_eq_self)
  have "sint (word_of_int n :: 32 word) = signed_take_bit 31 n"
    using u by (simp add: sint_uint)
  also have "\<dots> = take_bit 32 (n + 2 ^ 31) - 2 ^ 31"
    by (simp add: signed_take_bit_eq_take_bit_shift)
  also have "\<dots> = (n + 2 ^ 31) mod 2 ^ 32 - 2 ^ 31" by (simp add: take_bit_eq_mod)
  also have "\<dots> = (if 2 ^ 31 \<le> n then n - 2 ^ 32 else n)"
  proof (cases "2 ^ 31 \<le> n")
    case True
    have "(n + 2 ^ 31) mod 2 ^ 32 = (n + 2 ^ 31 - 2 ^ 32) mod 2 ^ 32"
      by (metis minus_mod_self2 mod_diff_right_eq)
    also have "\<dots> = n + 2 ^ 31 - 2 ^ 32" using True assms by simp
    finally show ?thesis using True by simp
  next
    case False
    then have "(n + 2 ^ 31) mod 2 ^ 32 = n + 2 ^ 31" using assms by simp
    then show ?thesis using False by simp
  qed
  finally show ?thesis .
qed

lemma toSigned_word:
  assumes "0 \<le> n" "n < 2 ^ 32"
  shows "toSigned (Num (of_int n)) = Num (of_int (sint (word_of_int n :: 32 word)))"
proof -
  have f: "(if real_of_int n < 0 then - \<lfloor>- real_of_int n\<rfloor> else \<lfloor>real_of_int n\<rfloor>) = n"
    using assms by simp
  show ?thesis
    unfolding toSigned_def toInt32.simps f
    using bit31_iff[OF assms] sint_of_pattern[OF assms] by simp
qed


lemma splitOn_nonempty: "splitOn c s \<noteq> []"
  by (induction s) (auto split: list.splits)

lemma hd_splitOn: "hd (splitOn c s) = takeWhile (\<lambda>x. x \<noteq> c) s"
  by (induction s) (auto split: list.splits simp: splitOn_nonempty)

lemma tl_splitOn:
  "tl (splitOn c s) = (if c \<in> set s then splitOn c (tl (dropWhile (\<lambda>x. x \<noteq> c) s)) else [])"
  by (induction s) (auto split: list.splits simp: splitOn_nonempty)

lemma splitOn_two:
  assumes "c \<in> set s"
  shows "\<exists>rest. splitOn c s =
           takeWhile (\<lambda>x. x \<noteq> c) s # takeWhile (\<lambda>x. x \<noteq> c) (tl (dropWhile (\<lambda>x. x \<noteq> c) s)) # rest"
proof -
  let ?t = "tl (dropWhile (\<lambda>x. x \<noteq> c) s)"
  obtain p ps where sp: "splitOn c s = p # ps"
    using splitOn_nonempty[of c s] by (cases "splitOn c s") auto
  have p: "p = takeWhile (\<lambda>x. x \<noteq> c) s" using hd_splitOn[of c s] sp by simp
  have ps: "ps = splitOn c ?t" using tl_splitOn[of c s] sp assms by simp
  obtain q qs where sq: "splitOn c ?t = q # qs"
    using splitOn_nonempty[of c ?t] by (cases "splitOn c ?t") auto
  have q: "q = takeWhile (\<lambda>x. x \<noteq> c) ?t" using hd_splitOn[of c ?t] sq by simp
  show ?thesis using sp p ps sq q by simp
qed

lemma isFinite_toSigned: "isFinite (toSigned n) = isFinite n"
  by (cases n) (simp_all add: toSigned_def)

lemma decode_pieces:
  assumes "CHR '','' \<in> set s"
  shows "decodePortalLocation s =
     (case (toSigned (parseInt16 (takeWhile (\<lambda>x. x \<noteq> CHR '','') s)),
            toSigned (parseInt16 (takeWhile (\<lambda>x. x \<noteq> CHR '','') (tl (dropWhile (\<lambda>x. x \<noteq> CHR '','') s))))) of
        (Num a, Num b) \<Rightarrow> Some \<lparr>lat = a / 1000000, lon = b / 1000000\<rparr>
      | _ \<Rightarrow> None)"
proof -
  have ne: "s \<noteq> []" using assms by auto
  obtain rest where sp: "splitOn (CHR '','') s =
      takeWhile (\<lambda>x. x \<noteq> CHR '','') s
      # takeWhile (\<lambda>x. x \<noteq> CHR '','') (tl (dropWhile (\<lambda>x. x \<noteq> CHR '','') s)) # rest"
    using splitOn_two[OF assms] by blast
  show ?thesis using assms ne by (simp add: decodePortalLocation_def sp Let_def)
qed

lemma decode_None_iff:
  "(decodePortalLocation s = None) =
     (CHR '','' \<notin> set s
      \<or> \<not> isFinite (parseInt16 (takeWhile (\<lambda>x. x \<noteq> CHR '','') s))
      \<or> \<not> isFinite (parseInt16 (takeWhile (\<lambda>x. x \<noteq> CHR '','')
                                 (tl (dropWhile (\<lambda>x. x \<noteq> CHR '','') s)))))"
proof (cases "CHR '','' \<in> set s")
  case False
  then show ?thesis by (simp add: decodePortalLocation_def)
next
  case True
  let ?a = "parseInt16 (takeWhile (\<lambda>x. x \<noteq> CHR '','') s)"
  let ?b = "parseInt16 (takeWhile (\<lambda>x. x \<noteq> CHR '','') (tl (dropWhile (\<lambda>x. x \<noteq> CHR '','') s)))"
  have "(decodePortalLocation s = None) = (\<not> (isFinite (toSigned ?a) \<and> isFinite (toSigned ?b)))"
    unfolding decode_pieces[OF True]
    by (cases "toSigned ?a"; cases "toSigned ?b") simp_all
  then show ?thesis using True by (simp add: isFinite_toSigned)
qed

lemma hexDigit_le: "hexDigit c = Some d \<Longrightarrow> d \<le> 15"
  by (auto simp: hexDigit_def Let_def split: if_splits)

lemma hexValue_bound: "hexValue acc h < (acc + 1) * 16 ^ length h"
proof (induction h arbitrary: acc)
  case Nil
  show ?case by simp
next
  case (Cons c cs)
  let ?d = "case hexDigit c of None \<Rightarrow> 0 | Some d \<Rightarrow> d"
  have d: "?d \<le> 15" by (auto split: option.splits dest: hexDigit_le)
  have "hexValue (16 * acc + ?d) cs < (16 * acc + ?d + 1) * 16 ^ length cs"
    by (rule Cons.IH)
  also have "\<dots> \<le> (16 * acc + 16) * 16 ^ length cs"
    using d by (intro mult_le_mono1) simp
  also have "\<dots> = (acc + 1) * 16 ^ length (c # cs)" by (simp add: algebra_simps)
  finally show ?case by simp
qed

lemma hexDigit_special:
  "isWhiteSpace c \<Longrightarrow> hexDigit c = None"
  "hexDigit CHR ''+'' = None" "hexDigit CHR ''-'' = None"
  "hexDigit CHR ''x'' = None" "hexDigit CHR ''X'' = None" "hexDigit CHR '','' = None"
  by (auto simp: isWhiteSpace_def hexDigit_def)

lemma parseInt16_digits:
  assumes "h \<noteq> []" "\<forall>c\<in>set h. hexDigit c \<noteq> None"
  shows "parseInt16 h = toNumber (int (hexValue 0 h))"
proof -
  obtain c r where h: "h = c # r" using assms(1) by (cases h) auto
  have c: "hexDigit c \<noteq> None" using assms(2) h by simp
  have ws: "\<not> isWhiteSpace c" "c \<noteq> CHR ''+''" "c \<noteq> CHR ''-''"
    using c hexDigit_special by auto
  have S2: "(case h of a # b # r \<Rightarrow>
                  if a = CHR ''0'' \<and> (b = CHR ''x'' \<or> b = CHR ''X'') then r else h
                | _ \<Rightarrow> h) = h"
  proof (cases r)
    case Nil
    then show ?thesis using h by simp
  next
    case (Cons b r')
    then have "hexDigit b \<noteq> None" using assms(2) h by simp
    then have "b \<noteq> CHR ''x''" "b \<noteq> CHR ''X''" using hexDigit_special by auto
    then show ?thesis using h Cons by simp
  qed
  have tw: "takeWhile (\<lambda>c. hexDigit c \<noteq> None) h = h"
    using assms(2) by (simp add: takeWhile_eq_all_conv)
  have S: "dropWhile isWhiteSpace h = h" using ws h by simp
  have S1: "(case h of c # r \<Rightarrow> if c = CHR ''+'' \<or> c = CHR ''-'' then r else h | [] \<Rightarrow> h) = h"
    using ws h by simp
  have sg: "(case h of c # r \<Rightarrow> if c = CHR ''-'' then - 1 else 1 | [] \<Rightarrow> (1 :: int)) = 1"
    using ws h by simp
  have "parseInt16 h = (if h = [] then NaN else toNumber (1 * int (hexValue 0 h)))"
    unfolding parseInt16_def Let_def S S1 S2 sg tw ..
  then show ?thesis using assms(1) by simp
qed

lemma toSigned_digits:
  assumes "h \<noteq> []" "length h \<le> 8" "\<forall>c\<in>set h. hexDigit c \<noteq> None"
  shows "toSigned (parseInt16 h) = Num (of_int (sint (word_of_nat (hexValue 0 h) :: 32 word)))"
proof -
  have "hexValue 0 h < 16 ^ length h" using hexValue_bound[of 0 h] by simp
  also have "\<dots> \<le> (16::nat) ^ 8" using assms(2) by (intro power_increasing) simp_all
  finally have b: "hexValue 0 h < 2 ^ 32" by simp
  then have bi: "int (hexValue 0 h) < 2 ^ 32" by (metis of_nat_less_numeral_power_cancel_iff)
  have "\<bar>int (hexValue 0 h)\<bar> < 2 ^ 1024 - 2 ^ 970" using bi by simp
  then have "toNumber (int (hexValue 0 h)) = Num (of_int (int (hexValue 0 h)))"
    by (simp add: toNumber_def)
  then show ?thesis
    using parseInt16_digits[OF assms(1,3)] toSigned_word[of "int (hexValue 0 h)"] bi by simp
qed

lemma decode_digits:
  assumes "latHex \<noteq> []" "length latHex \<le> 8" "\<forall>c\<in>set latHex. hexDigit c \<noteq> None"
    and "lonHex \<noteq> []" "length lonHex \<le> 8" "\<forall>c\<in>set lonHex. hexDigit c \<noteq> None"
  shows "decodePortalLocation (latHex @ '','' @ lonHex) =
           Some \<lparr>lat = real_of_int (sint (word_of_nat (hexValue 0 latHex) :: 32 word)) / 1000000,
                 lon = real_of_int (sint (word_of_nat (hexValue 0 lonHex) :: 32 word)) / 1000000\<rparr>"
proof -
  have na: "\<forall>c\<in>set latHex. c \<noteq> CHR '',''" using assms(3) hexDigit_special(6) by blast
  have nb: "\<forall>c\<in>set lonHex. c \<noteq> CHR '',''" using assms(6) hexDigit_special(6) by blast
  have a: "takeWhile (\<lambda>x. x \<noteq> CHR '','') (latHex @ '','' @ lonHex) = latHex"
    using na by (simp add: takeWhile_append2 takeWhile_tail)
  have "dropWhile (\<lambda>x. x \<noteq> CHR '','') (latHex @ '','' @ lonHex) = '','' @ lonHex"
    using na by (simp add: dropWhile_append2)
  then have b: "takeWhile (\<lambda>x. x \<noteq> CHR '','')
                  (tl (dropWhile (\<lambda>x. x \<noteq> CHR '','') (latHex @ '','' @ lonHex))) = lonHex"
    using nb by (simp add: takeWhile_eq_all_conv)
  have "CHR '','' \<in> set (latHex @ '','' @ lonHex)" by simp
  then have "decodePortalLocation (latHex @ '','' @ lonHex) =
     (case (toSigned (parseInt16 latHex), toSigned (parseInt16 lonHex)) of
        (Num a, Num b) \<Rightarrow> Some \<lparr>lat = a / 1000000, lon = b / 1000000\<rparr>
      | _ \<Rightarrow> None)"
    using decode_pieces[of "latHex @ '','' @ lonHex"] by (simp only: a b)
  then show ?thesis
    by (simp add: toSigned_digits[OF assms(1,2,3)] toSigned_digits[OF assms(4,5,6)])
qed

lemma decode_example:
  "decodePortalLocation ''0000000a,fffffff6'' = Some \<lparr>lat = 1 / 100000, lon = - 1 / 100000\<rparr>"
proof -
  have p1: "parseInt16 ''0000000a'' = Num 10"
    by (simp add: parseInt16_def isWhiteSpace_def hexDigit_def toNumber_def)
  have p2: "parseInt16 ''fffffff6'' = Num 4294967286"
    by (simp add: parseInt16_def isWhiteSpace_def hexDigit_def toNumber_def)
  have t1: "toSigned (Num 10) = Num 10" by (simp add: toSigned_def)
  have t2: "toSigned (Num 4294967286) = Num (- 10)" by (simp add: toSigned_def)
  show ?thesis by (simp add: decodePortalLocation_def p1 p2 t1 t2)
qed

text \<open>
  C6. \<open>decodePortalLocation\<close> returns null exactly when the string has no comma or the
  piece before the first comma or the piece after it does not parse to a finite number.
  When the two pieces are 32-bit patterns (one to eight hexadecimal digits each), the
  result is the two's-complement value of each pattern divided by \<open>10^6\<close>. On
  \<open>0000000a,fffffff6\<close> it is \<open>lat = 0.00001\<close>, \<open>lon = -0.00001\<close>.
\<close>

theorem decodePortalLocation_signed_e6:
  "((decodePortalLocation s = None) =
      (CHR '','' \<notin> set s
       \<or> \<not> isFinite (parseInt16 (takeWhile (\<lambda>x. x \<noteq> CHR '','') s))
       \<or> \<not> isFinite (parseInt16 (takeWhile (\<lambda>x. x \<noteq> CHR '','')
                                  (tl (dropWhile (\<lambda>x. x \<noteq> CHR '','') s))))))
   \<and> (latHex \<noteq> [] \<and> length latHex \<le> 8 \<and> (\<forall>c\<in>set latHex. hexDigit c \<noteq> None)
        \<and> lonHex \<noteq> [] \<and> length lonHex \<le> 8 \<and> (\<forall>c\<in>set lonHex. hexDigit c \<noteq> None)
      \<longrightarrow> decodePortalLocation (latHex @ '','' @ lonHex) =
           Some \<lparr>lat = real_of_int (sint (word_of_nat (hexValue 0 latHex) :: 32 word)) / 1000000,
                 lon = real_of_int (sint (word_of_nat (hexValue 0 lonHex) :: 32 word)) / 1000000\<rparr>)
   \<and> decodePortalLocation ''0000000a,fffffff6'' = Some \<lparr>lat = 1 / 100000, lon = - 1 / 100000\<rparr>"
  using decode_None_iff[of s] decode_digits[of latHex lonHex] decode_example by blast

theorem decodePortalLocation_signed_e6_witness:
  "decodePortalLocation ''7fffffff,80000000'' =
     Some \<lparr>lat = 2147483647 / 1000000, lon = - 2147483648 / 1000000\<rparr>
   \<and> decodePortalLocation ''7fffffff,'' = None"
proof -
  have v1: "hexValue 0 ''7fffffff'' = 2147483647" by (simp add: hexDigit_def)
  have v2: "hexValue 0 ''80000000'' = 2147483648" by (simp add: hexDigit_def)
  have d: "\<forall>c\<in>set ''7fffffff''. hexDigit c \<noteq> None" "\<forall>c\<in>set ''80000000''. hexDigit c \<noteq> None"
    by (simp_all add: hexDigit_def)
  have n: "\<not> isFinite (parseInt16 [])" by (simp add: parseInt16_def)
  show ?thesis
    using decodePortalLocation_signed_e6[of "''7fffffff,''" "''7fffffff''" "''80000000''",
        unfolded v1 v2] d n
    by simp
qed

section \<open>filterItems\<close>

lemma keepItem_rarity:
  "truthy (filterRarity f) \<Longrightarrow> keepItem f (iid, ts, m) \<Longrightarrow> resolvedRarity m = filterRarity f"
  by (simp add: keepItem_def split: if_splits)

text \<open>
  C7. With a rarity filter set (a non-empty \<open>filters.rarity\<close>), every item that
  \<open>filterItems\<close> keeps has a resolved rarity equal to the requested value, where the
  resolved rarity is \<open>resourceRarity\<close> of the first of \<open>resource\<close>,
  \<open>resourceWithLevels\<close>, \<open>modResource\<close> when that is non-empty and the rarity of
  \<open>modResource\<close> otherwise. An item whose resolved rarity differs, and so every item
  with no resolvable rarity, is not in the result.
\<close>

theorem filterItems_rarity:
  assumes "truthy (filterRarity f)"
  shows "(\<forall>it\<in>set (filterItems its f). resolvedRarity (snd (snd it)) = filterRarity f)
       \<and> (\<forall>iid ts m. resolvedRarity m \<noteq> filterRarity f \<longrightarrow> (iid, ts, m) \<notin> set (filterItems its f))
       \<and> (\<forall>iid ts m. \<not> truthy (resolvedRarity m) \<longrightarrow> (iid, ts, m) \<notin> set (filterItems its f))
       \<and> (\<forall>m. resolvedRarity m =
                (if truthy (opt_get (firstResource m) resourceRarity)
                 then opt_get (firstResource m) resourceRarity
                 else opt_get (modResource m) rarity))"
proof (intro conjI allI impI ballI)
  fix it assume "it \<in> set (filterItems its f)"
  then have "keepItem f it" by (simp add: filterItems_def)
  then show "resolvedRarity (snd (snd it)) = filterRarity f"
    using assms keepItem_rarity[of f "fst it" "fst (snd it)" "snd (snd it)"] by simp
next
  fix iid ts m assume "resolvedRarity m \<noteq> filterRarity f"
  then show "(iid, ts, m) \<notin> set (filterItems its f)"
    using assms keepItem_rarity[of f iid ts m] by (auto simp: filterItems_def)
next
  fix iid ts m assume "\<not> truthy (resolvedRarity m)"
  then have "resolvedRarity m \<noteq> filterRarity f" using assms by auto
  then show "(iid, ts, m) \<notin> set (filterItems its f)"
    using assms keepItem_rarity[of f iid ts m] by (auto simp: filterItems_def)
next
  fix m show "resolvedRarity m =
                (if truthy (opt_get (firstResource m) resourceRarity)
                 then opt_get (firstResource m) resourceRarity
                 else opt_get (modResource m) rarity)"
    by (simp add: resolvedRarity_def js_or_def)
qed

theorem filterItems_rarity_witness:
  "truthy (filterRarity exFilter)
   \<and> filterItems [exRareShield, exPlain] exFilter = [exRareShield]
   \<and> resolvedRarity (snd (snd exRareShield)) = filterRarity exFilter
   \<and> \<not> truthy (resolvedRarity (snd (snd exPlain)))
   \<and> exPlain \<notin> set (filterItems [exRareShield, exPlain] exFilter)"
proof -
  have t: "truthy (filterRarity exFilter)" by (simp add: exFilter_def truthy_def)
  have k: "filterItems [exRareShield, exPlain] exFilter = [exRareShield]"
    by (simp add: filterItems_def keepItem_def exRareShield_def exPlain_def exFilter_def
        cubeMeta_def shieldMeta_def firstResource_def resolvedRarity_def opt_get_def js_or_def
        truthy_def)
  have n: "\<not> truthy (resolvedRarity (snd (snd exPlain)))"
    by (simp add: exPlain_def cubeMeta_def firstResource_def resolvedRarity_def opt_get_def
        js_or_def truthy_def)
  show ?thesis
    using filterItems_rarity[OF t, of "[exRareShield, exPlain]"] t k n
    by (auto simp: exPlain_def)
qed

section \<open>groupItems\<close>

lemma groupLoop_snoc: "groupLoop tb (xs @ [x]) = groupStep (groupLoop tb xs) x"
  by (induction xs arbitrary: tb) simp_all

lemma bucketOf_groupStep:
  "bucketOf (groupStep tb x) dt gk =
     (if dt = displayTypeOf x \<and> gk = groupKeyOf x
      then Some (case bucketOf tb dt gk of
                   None \<Rightarrow> \<lparr>items = [x], gmeta = newGmeta x\<rparr>
                 | Some b \<Rightarrow> b\<lparr>items := items b @ [x]\<rparr>)
      else bucketOf tb dt gk)"
  by (auto simp: bucketOf_def groupStep_def Let_def update_conv' split: option.splits)

lemma bucketOf_groupItems:
  "bucketOf (groupItems xs) dt gk =
     (case filter (\<lambda>x. displayTypeOf x = dt \<and> groupKeyOf x = gk) xs of
        [] \<Rightarrow> None
      | f # fs \<Rightarrow> Some \<lparr>items = f # fs, gmeta = newGmeta f\<rparr>)"
proof (induction xs rule: rev_induct)
  case Nil
  show ?case by (simp add: groupItems_def bucketOf_def)
next
  case (snoc x xs)
  have st: "groupItems (xs @ [x]) = groupStep (groupItems xs) x"
    by (simp add: groupItems_def groupLoop_snoc)
  show ?case
    unfolding st bucketOf_groupStep snoc.IH
    by (auto split: list.splits)
qed

lemma bucketOf_append_same:
  assumes "bucketOf (groupItems xs) (displayTypeOf x) (groupKeyOf x) = Some b"
  shows "bucketOf (groupItems (xs @ [x])) (displayTypeOf x) (groupKeyOf x) =
           Some \<lparr>items = items b @ [x], gmeta = gmeta b\<rparr>"
proof -
  have st: "groupItems (xs @ [x]) = groupStep (groupItems xs) x"
    by (simp add: groupItems_def groupLoop_snoc)
  show ?thesis unfolding st bucketOf_groupStep using assms by simp
qed

text \<open>
  C4. The bucket that \<open>groupItems\<close> builds under a display type and group key holds the
  items with that display type and key in input order, and its \<open>gmeta\<close> is the snapshot
  \<open>newGmeta\<close> (display type, title, and the level, weaponType, cubeType, modType and
  rarity fields of the category) of the first of them. Grouping one more item with
  the same key appends it and leaves \<open>gmeta\<close> as it was.
\<close>

theorem groupItems_gmeta_first_write_wins:
  "bucketOf (groupItems xs) dt gk =
     (case filter (\<lambda>x. displayTypeOf x = dt \<and> groupKeyOf x = gk) xs of
        [] \<Rightarrow> None
      | f # fs \<Rightarrow> Some \<lparr>items = f # fs, gmeta = newGmeta f\<rparr>)
   \<and> (bucketOf (groupItems xs) (displayTypeOf x) (groupKeyOf x) = Some b
      \<longrightarrow> bucketOf (groupItems (xs @ [x])) (displayTypeOf x) (groupKeyOf x) =
            Some \<lparr>items = items b @ [x], gmeta = gmeta b\<rparr>)"
  using bucketOf_groupItems[of xs dt gk] bucketOf_append_same[of xs x b] by blast

lemma exPlain_key:
  "displayTypeOf exPlain = Some ''Cubes''" "groupKeyOf exPlain = ''L5|POWER_CUBE''"
  "displayTypeOf exPlain2 = Some ''Cubes''" "groupKeyOf exPlain2 = ''L5|POWER_CUBE''"
  by (simp_all add: displayTypeOf_def groupKeyOf_def exPlain_def exPlain2_def cubeMeta_def
      rawTypeOf_def opt_get_def js_or_def truthy_def getDisplayType_def needsTypeInKey_def
      CAPSULE_TYPES_def MOD_TYPES_def WEAPON_TYPES_def CUBE_TYPES_def displayTitle_def
      levelText_def numberText_def natDigits.simps)

theorem groupItems_gmeta_first_write_wins_witness:
  "bucketOf (groupItems [exPlain]) (displayTypeOf exPlain2) (groupKeyOf exPlain2)
     = Some \<lparr>items = [exPlain], gmeta = newGmeta exPlain\<rparr>
   \<and> bucketOf (groupItems ([exPlain] @ [exPlain2])) (displayTypeOf exPlain2) (groupKeyOf exPlain2)
     = Some \<lparr>items = [exPlain, exPlain2], gmeta = newGmeta exPlain\<rparr>"
proof -
  have h: "bucketOf (groupItems [exPlain]) (displayTypeOf exPlain2) (groupKeyOf exPlain2)
             = Some \<lparr>items = [exPlain], gmeta = newGmeta exPlain\<rparr>"
    using groupItems_gmeta_first_write_wins[of "[exPlain]" "displayTypeOf exPlain2"
        "groupKeyOf exPlain2" exPlain2 "\<lparr>items = [exPlain], gmeta = newGmeta exPlain\<rparr>"]
    by (simp add: exPlain_key)
  show ?thesis
    using h groupItems_gmeta_first_write_wins[of "[exPlain]" "displayTypeOf exPlain2"
        "groupKeyOf exPlain2" exPlain2 "\<lparr>items = [exPlain], gmeta = newGmeta exPlain\<rparr>"]
    by simp
qed

lemma item_in_own_bucket:
  assumes "a \<in> set xs"
  shows "\<exists>b. bucketOf (groupItems xs) (displayTypeOf a) (groupKeyOf a) = Some b \<and> a \<in> set (items b)"
proof -
  let ?f = "filter (\<lambda>x. displayTypeOf x = displayTypeOf a \<and> groupKeyOf x = groupKeyOf a) xs"
  have m: "a \<in> set ?f" using assms by simp
  then obtain f fs where f: "?f = f # fs" by (cases ?f) auto
  have "bucketOf (groupItems xs) (displayTypeOf a) (groupKeyOf a)
          = Some \<lparr>items = f # fs, gmeta = newGmeta f\<rparr>"
    by (simp add: bucketOf_groupItems f)
  then show ?thesis using m f by auto
qed

lemma bucket_members:
  assumes "bucketOf (groupItems xs) dt gk = Some b" "a \<in> set (items b)"
  shows "displayTypeOf a = dt \<and> groupKeyOf a = gk"
proof -
  let ?f = "filter (\<lambda>x. displayTypeOf x = dt \<and> groupKeyOf x = gk) xs"
  have "items b = ?f"
    using assms(1) by (cases ?f) (auto simp: bucketOf_groupItems)
  then show ?thesis using assms(2) by auto
qed

lemma groupKey_typed:
  "needsTypeInKey (displayTypeOf (iid, ts, m)) \<Longrightarrow>
     groupKeyOf (iid, ts, m) =
       displayTitle iid m @ ''|'' @ (case rawTypeOf m of None \<Rightarrow> ''undefined'' | Some t \<Rightarrow> t)"
  "\<not> needsTypeInKey (displayTypeOf (iid, ts, m)) \<Longrightarrow> groupKeyOf (iid, ts, m) = displayTitle iid m"
  by (simp_all add: groupKeyOf_def displayTypeOf_def Let_def)

lemma needsTypeInKey_rawType:
  "needsTypeInKey (getDisplayType rt) \<Longrightarrow> \<exists>t. rt = Some t"
  by (cases rt) (auto simp: needsTypeInKey_def getDisplayType_def split: if_splits)

text \<open>
  C8. Two grouped items with the same title and different raw types: when the display
  category of each is Weapons, Cubes or Mods, their group keys are \<open>title|rawType\<close> and
  differ, and each item is in the bucket of its own key and not in the other's; when
  both have the same display category and it is none of these three, both keys are the
  title alone and the two items are in one bucket.
\<close>

theorem groupItems_same_title_different_rawType:
  assumes "(ia, tsa, ma) \<in> set xs" "(ib, tsb, mb) \<in> set xs"
    and "displayTitle ia ma = displayTitle ib mb"
    and "rawTypeOf ma \<noteq> rawTypeOf mb"
  shows "(needsTypeInKey (displayTypeOf (ia, tsa, ma)) \<and> needsTypeInKey (displayTypeOf (ib, tsb, mb))
          \<longrightarrow> groupKeyOf (ia, tsa, ma) \<noteq> groupKeyOf (ib, tsb, mb)
            \<and> (\<exists>ba bb. bucketOf (groupItems xs) (displayTypeOf (ia, tsa, ma)) (groupKeyOf (ia, tsa, ma)) = Some ba
                     \<and> bucketOf (groupItems xs) (displayTypeOf (ib, tsb, mb)) (groupKeyOf (ib, tsb, mb)) = Some bb
                     \<and> (ia, tsa, ma) \<in> set (items ba) \<and> (ib, tsb, mb) \<notin> set (items ba)
                     \<and> (ib, tsb, mb) \<in> set (items bb) \<and> (ia, tsa, ma) \<notin> set (items bb)))
       \<and> (displayTypeOf (ia, tsa, ma) = displayTypeOf (ib, tsb, mb)
          \<and> \<not> needsTypeInKey (displayTypeOf (ia, tsa, ma))
          \<longrightarrow> groupKeyOf (ia, tsa, ma) = displayTitle ia ma
            \<and> groupKeyOf (ib, tsb, mb) = displayTitle ia ma
            \<and> (\<exists>bk. bucketOf (groupItems xs) (displayTypeOf (ia, tsa, ma)) (displayTitle ia ma) = Some bk
                   \<and> (ia, tsa, ma) \<in> set (items bk) \<and> (ib, tsb, mb) \<in> set (items bk)))"
proof (intro conjI impI)
  assume n: "needsTypeInKey (displayTypeOf (ia, tsa, ma)) \<and> needsTypeInKey (displayTypeOf (ib, tsb, mb))"
  obtain ta tb where t: "rawTypeOf ma = Some ta" "rawTypeOf mb = Some tb"
    using n needsTypeInKey_rawType by (fastforce simp: displayTypeOf_def)
  show k: "groupKeyOf (ia, tsa, ma) \<noteq> groupKeyOf (ib, tsb, mb)"
    using n assms(3,4) t by (simp add: groupKey_typed)
  obtain ba where ba: "bucketOf (groupItems xs) (displayTypeOf (ia, tsa, ma)) (groupKeyOf (ia, tsa, ma)) = Some ba"
      "(ia, tsa, ma) \<in> set (items ba)"
    using item_in_own_bucket[OF assms(1)] by blast
  obtain bb where bb: "bucketOf (groupItems xs) (displayTypeOf (ib, tsb, mb)) (groupKeyOf (ib, tsb, mb)) = Some bb"
      "(ib, tsb, mb) \<in> set (items bb)"
    using item_in_own_bucket[OF assms(2)] by blast
  have "(ib, tsb, mb) \<notin> set (items ba)" using bucket_members[OF ba(1)] k by metis
  moreover have "(ia, tsa, ma) \<notin> set (items bb)" using bucket_members[OF bb(1)] k by metis
  ultimately show "\<exists>ba bb. bucketOf (groupItems xs) (displayTypeOf (ia, tsa, ma)) (groupKeyOf (ia, tsa, ma)) = Some ba
                     \<and> bucketOf (groupItems xs) (displayTypeOf (ib, tsb, mb)) (groupKeyOf (ib, tsb, mb)) = Some bb
                     \<and> (ia, tsa, ma) \<in> set (items ba) \<and> (ib, tsb, mb) \<notin> set (items ba)
                     \<and> (ib, tsb, mb) \<in> set (items bb) \<and> (ia, tsa, ma) \<notin> set (items bb)"
    using ba bb by blast
next
  assume s: "displayTypeOf (ia, tsa, ma) = displayTypeOf (ib, tsb, mb)
          \<and> \<not> needsTypeInKey (displayTypeOf (ia, tsa, ma))"
  have na: "\<not> needsTypeInKey (displayTypeOf (ia, tsa, ma))" using s by blast
  have nb: "\<not> needsTypeInKey (displayTypeOf (ib, tsb, mb))" using s by auto
  show ka: "groupKeyOf (ia, tsa, ma) = displayTitle ia ma" by (rule groupKey_typed(2)[OF na])
  show kb: "groupKeyOf (ib, tsb, mb) = displayTitle ia ma"
    using groupKey_typed(2)[OF nb] assms(3) by simp
  obtain ba where ba: "bucketOf (groupItems xs) (displayTypeOf (ia, tsa, ma)) (groupKeyOf (ia, tsa, ma)) = Some ba"
      "(ia, tsa, ma) \<in> set (items ba)"
    using item_in_own_bucket[OF assms(1)] by blast
  obtain bb where bb: "bucketOf (groupItems xs) (displayTypeOf (ib, tsb, mb)) (groupKeyOf (ib, tsb, mb)) = Some bb"
      "(ib, tsb, mb) \<in> set (items bb)"
    using item_in_own_bucket[OF assms(2)] by blast
  have "ba = bb" using ba(1) bb(1) s ka kb by simp
  then show "\<exists>bk. bucketOf (groupItems xs) (displayTypeOf (ia, tsa, ma)) (displayTitle ia ma) = Some bk
                   \<and> (ia, tsa, ma) \<in> set (items bk) \<and> (ib, tsb, mb) \<in> set (items bk)"
    using ba bb ka by auto
qed

lemma exMods_facts:
  "displayTitle ''s1'' (shieldMeta ''RARE'') = ''R''"
  "displayTitle ''h1'' (snd (snd exRareHeatsink)) = ''R''"
  "rawTypeOf (shieldMeta ''RARE'') = Some ''RES_SHIELD''"
  "rawTypeOf (snd (snd exRareHeatsink)) = Some ''HEATSINK''"
  by (simp_all add: exRareHeatsink_def shieldMeta_def displayTitle_def abbreviateRarity_def
      ABBREVIATIONS_def rawTypeOf_def opt_get_def js_or_def truthy_def)

lemma exPowerups_facts:
  "displayTitle ''f1'' (snd (snd exPortalPowerup)) = ''FRACK''"
  "displayTitle ''f2'' (snd (snd exPlayerPowerup)) = ''FRACK''"
  "rawTypeOf (snd (snd exPortalPowerup)) = Some ''PORTAL_POWERUP''"
  "rawTypeOf (snd (snd exPlayerPowerup)) = Some ''PLAYER_POWERUP''"
  by (simp_all add: exPortalPowerup_def exPlayerPowerup_def plainRes_def displayTitle_def
      rawTypeOf_def opt_get_def js_or_def truthy_def)

theorem groupItems_same_title_different_rawType_witness:
  "(\<exists>ba bb. bucketOf (groupItems [exRareShield, exRareHeatsink]) (Some ''Mods'') ''R|RES_SHIELD'' = Some ba
         \<and> bucketOf (groupItems [exRareShield, exRareHeatsink]) (Some ''Mods'') ''R|HEATSINK'' = Some bb
         \<and> exRareShield \<in> set (items ba) \<and> exRareHeatsink \<notin> set (items ba)
         \<and> exRareHeatsink \<in> set (items bb) \<and> exRareShield \<notin> set (items bb))
   \<and> (\<exists>bk. bucketOf (groupItems [exPortalPowerup, exPlayerPowerup]) (Some ''Powerups'') ''FRACK'' = Some bk
         \<and> exPortalPowerup \<in> set (items bk) \<and> exPlayerPowerup \<in> set (items bk))"
proof -
  have sh: "exRareShield = (''s1'', 300, shieldMeta ''RARE'')" by (simp add: exRareShield_def)
  have hs: "exRareHeatsink = (''h1'', 310, snd (snd exRareHeatsink))"
    by (simp add: exRareHeatsink_def)
  have pa: "exPortalPowerup = (''f1'', 400, snd (snd exPortalPowerup))"
    by (simp add: exPortalPowerup_def)
  have pb: "exPlayerPowerup = (''f2'', 410, snd (snd exPlayerPowerup))"
    by (simp add: exPlayerPowerup_def)
  have dm: "displayTypeOf (''s1'', 300, shieldMeta ''RARE'') = Some ''Mods''"
    "displayTypeOf (''h1'', 310, snd (snd exRareHeatsink)) = Some ''Mods''"
    by (simp_all add: displayTypeOf_def exMods_facts getDisplayType_def CAPSULE_TYPES_def
        MOD_TYPES_def)
  have dp: "displayTypeOf (''f1'', 400, snd (snd exPortalPowerup)) = Some ''Powerups''"
    "displayTypeOf (''f2'', 410, snd (snd exPlayerPowerup)) = Some ''Powerups''"
    by (simp_all add: displayTypeOf_def exPowerups_facts getDisplayType_def)
  have km: "groupKeyOf (''s1'', 300, shieldMeta ''RARE'') = ''R|RES_SHIELD''"
    "groupKeyOf (''h1'', 310, snd (snd exRareHeatsink)) = ''R|HEATSINK''"
    using dm by (simp_all add: groupKey_typed needsTypeInKey_def exMods_facts)
  have mods: "\<exists>ba bb. bucketOf (groupItems [exRareShield, exRareHeatsink]) (Some ''Mods'') ''R|RES_SHIELD'' = Some ba
         \<and> bucketOf (groupItems [exRareShield, exRareHeatsink]) (Some ''Mods'') ''R|HEATSINK'' = Some bb
         \<and> exRareShield \<in> set (items ba) \<and> exRareHeatsink \<notin> set (items ba)
         \<and> exRareHeatsink \<in> set (items bb) \<and> exRareShield \<notin> set (items bb)"
    using groupItems_same_title_different_rawType[of "''s1''" 300 "shieldMeta ''RARE''"
        "[exRareShield, exRareHeatsink]" "''h1''" 310 "snd (snd exRareHeatsink)"]
    unfolding sh[symmetric] hs[symmetric]
    by (simp add: exMods_facts needsTypeInKey_def dm[folded sh hs] km[folded sh hs])
  have pows: "\<exists>bk. bucketOf (groupItems [exPortalPowerup, exPlayerPowerup]) (Some ''Powerups'') ''FRACK'' = Some bk
         \<and> exPortalPowerup \<in> set (items bk) \<and> exPlayerPowerup \<in> set (items bk)"
    using groupItems_same_title_different_rawType[of "''f1''" 400 "snd (snd exPortalPowerup)"
        "[exPortalPowerup, exPlayerPowerup]" "''f2''" 410 "snd (snd exPlayerPowerup)"]
    unfolding pa[symmetric] pb[symmetric]
    by (simp add: exPowerups_facts needsTypeInKey_def dp[folded pa pb])
  show ?thesis using mods pows by blast
qed

section \<open>The sort: permutation, order, stability\<close>

lemma mset_insertBy: "mset (insertBy af x ys) = add_mset x (mset ys)"
  by (induction ys) simp_all

lemma mset_sortBy: "mset (sortBy af xs) = mset xs"
  by (induction xs) (simp_all add: mset_insertBy)

lemma set_insertBy: "set (insertBy af x ys) = insert x (set ys)"
  by (induction ys) auto

lemma sorted_insertBy:
  assumes asym: "\<And>a b. af a b \<Longrightarrow> \<not> af b a"
    and trans: "\<And>a b c. \<not> af a b \<Longrightarrow> \<not> af b c \<Longrightarrow> \<not> af a c"
    and ys: "sorted_wrt (\<lambda>a b. \<not> af a b) ys"
  shows "sorted_wrt (\<lambda>a b. \<not> af a b) (insertBy af x ys)"
  using ys
proof (induction ys)
  case Nil
  show ?case by simp
next
  case (Cons y ys)
  show ?case
  proof (cases "af x y")
    case True
    have "\<not> af y x" using True asym by blast
    moreover have "\<forall>z\<in>set ys. \<not> af y z" using Cons.prems by simp
    ultimately have "\<forall>z\<in>set (insertBy af x ys). \<not> af y z" by (simp add: set_insertBy)
    moreover have "sorted_wrt (\<lambda>a b. \<not> af a b) (insertBy af x ys)"
      using Cons.IH Cons.prems by simp
    ultimately show ?thesis using True by simp
  next
    case False
    have "\<forall>z\<in>set ys. \<not> af x z" using False Cons.prems trans by auto
    then show ?thesis using False Cons.prems by simp
  qed
qed

lemma sorted_sortBy:
  assumes "\<And>a b. af a b \<Longrightarrow> \<not> af b a"
    and "\<And>a b c. \<not> af a b \<Longrightarrow> \<not> af b c \<Longrightarrow> \<not> af a c"
  shows "sorted_wrt (\<lambda>a b. \<not> af a b) (sortBy af xs)"
proof (induction xs)
  case Nil
  show ?case by simp
next
  case (Cons x xs)
  show ?case using sorted_insertBy[of af "sortBy af xs" x, OF assms Cons.IH] by simp
qed

lemma filter_insertBy:
  assumes "\<And>a b. P a \<Longrightarrow> P b \<Longrightarrow> \<not> af a b"
  shows "filter P (insertBy af x ys) = (if P x then x # filter P ys else filter P ys)"
proof (induction ys)
  case Nil
  show ?case by simp
next
  case (Cons y ys)
  show ?case
  proof (cases "af x y")
    case True
    then have "\<not> (P x \<and> P y)" using assms by blast
    then show ?thesis using True Cons.IH by auto
  next
    case False
    then show ?thesis by simp
  qed
qed

lemma filter_sortBy:
  assumes "\<And>a b. P a \<Longrightarrow> P b \<Longrightarrow> \<not> af a b"
  shows "filter P (sortBy af xs) = filter P xs"
  by (induction xs) (simp_all add: filter_insertBy[of P af, OF assms])







section \<open>sortTypeGroups: Weapons\<close>






section \<open>sortKeys: distance mode\<close>

lemma getDistance_range:
  "getDistance hav ul e = PosInf \<or> (\<exists>r. getDistance hav ul e = Num r)"
proof (cases "firstKeyLocation e")
  case None
  then show ?thesis by (simp add: getDistance_def)
next
  case (Some l)
  then show ?thesis
    by (cases "hav (lat ul) (lon ul) (lat l) (lon l)") (simp_all add: getDistance_def)
qed

lemma positive_sub_iff:
  assumes "x = PosInf \<or> (\<exists>r. x = Num r)" "y = PosInf \<or> (\<exists>r. y = Num r)"
  shows "positive (js_sub x y) = (\<not> distLe x y)"
  using assms by auto

lemma distLe_total:
  assumes "x = PosInf \<or> (\<exists>r. x = Num r)" "y = PosInf \<or> (\<exists>r. y = Num r)"
  shows "\<not> distLe x y \<Longrightarrow> distLe y x"
  using assms by auto

lemma distLe_trans:
  assumes "x = PosInf \<or> (\<exists>r. x = Num r)" "y = PosInf \<or> (\<exists>r. y = Num r)"
    "z = PosInf \<or> (\<exists>r. z = Num r)"
  shows "distLe x y \<Longrightarrow> distLe y z \<Longrightarrow> distLe x z"
  using assms by auto

lemma keysDistanceCompare_after:
  "positive (keysDistanceCompare hav ul dir a b) =
     (if dir = ''desc'' then \<not> distLe (getDistance hav ul b) (getDistance hav ul a)
      else \<not> distLe (getDistance hav ul a) (getDistance hav ul b))"
  using positive_sub_iff[OF getDistance_range[of hav ul a] getDistance_range[of hav ul b]]
    positive_sub_iff[OF getDistance_range[of hav ul b] getDistance_range[of hav ul a]]
  by (simp add: keysDistanceCompare_def Let_def)

lemma sort_distance_sorted:
  "sorted_wrt (\<lambda>a b. if dir = ''desc'' then distLe (getDistance hav ul b) (getDistance hav ul a)
                      else distLe (getDistance hav ul a) (getDistance hav ul b))
     (arraySortNum (keysDistanceCompare hav ul dir) es)"
proof -
  let ?af = "\<lambda>a b. positive (keysDistanceCompare hav ul dir a b)"
  have a: "\<And>a b. ?af a b \<Longrightarrow> \<not> ?af b a"
    using distLe_total[OF getDistance_range getDistance_range]
    by (auto simp: keysDistanceCompare_after)
  have t: "\<And>a b c. \<not> ?af a b \<Longrightarrow> \<not> ?af b c \<Longrightarrow> \<not> ?af a c"
    using distLe_trans[OF getDistance_range getDistance_range getDistance_range]
    by (simp add: keysDistanceCompare_after split: if_splits)
  have "sorted_wrt (\<lambda>a b. \<not> ?af a b) (sortBy ?af es)"
    using sorted_sortBy[of ?af es] a t by blast
  then show ?thesis
    unfolding arraySortNum_def
    by (rule sorted_wrt_mono_rel[rotated]) (simp add: keysDistanceCompare_after split: if_splits)
qed

lemma firstKeyLocation_None_iff:
  "(firstKeyLocation e = None) =
     (case items (snd e) of
        [] \<Rightarrow> True
      | (iid, ts, m) # _ \<Rightarrow>
          (case opt_get (portalCoupler m) portalLocation of
             None \<Rightarrow> True
           | Some s \<Rightarrow> decodePortalLocation s = None))"
  by (auto simp: firstKeyLocation_def decodePortalLocation_def Let_def
      split: list.splits option.splits prod.splits)

lemma sortKeys_distance_eq:
  "sortKeys lc hav es (cfg\<lparr>mode := ''distance''\<rparr>) (Some ul) =
     arraySortNum (keysDistanceCompare hav ul (distance (directions cfg))) es"
  by (simp add: sortKeys_def)

text \<open>
  C5. In distance mode with a user location, a group whose first key has no location, or
  one that does not decode, gets the distance positive infinity. The sort returns a
  permutation of the groups, so none is dropped, and it is in order of distance with
  positive infinity as the greatest value in both directions: ascending, the groups
  without a location come last, and descending they come first, ahead of every group
  with a finite distance.
\<close>

theorem sortKeys_distance_unknown_location:
  "((firstKeyLocation e = None) =
      (case items (snd e) of
         [] \<Rightarrow> True
       | (iid, ts, m) # _ \<Rightarrow>
           (case opt_get (portalCoupler m) portalLocation of
              None \<Rightarrow> True
            | Some s \<Rightarrow> decodePortalLocation s = None)))
   \<and> (firstKeyLocation e = None \<longrightarrow> getDistance hav ul e = PosInf)
   \<and> mset (sortKeys lc hav es (cfg\<lparr>mode := ''distance''\<rparr>) (Some ul)) = mset es
   \<and> (distance (directions cfg) = ''desc'' \<longrightarrow>
        sorted_wrt (\<lambda>a b. distLe (getDistance hav ul b) (getDistance hav ul a))
          (sortKeys lc hav es (cfg\<lparr>mode := ''distance''\<rparr>) (Some ul))
        \<and> sorted_wrt (\<lambda>a b. firstKeyLocation b = None \<longrightarrow> getDistance hav ul a = PosInf)
          (sortKeys lc hav es (cfg\<lparr>mode := ''distance''\<rparr>) (Some ul)))
   \<and> (distance (directions cfg) \<noteq> ''desc'' \<longrightarrow>
        sorted_wrt (\<lambda>a b. distLe (getDistance hav ul a) (getDistance hav ul b))
          (sortKeys lc hav es (cfg\<lparr>mode := ''distance''\<rparr>) (Some ul))
        \<and> sorted_wrt (\<lambda>a b. firstKeyLocation a = None \<longrightarrow> getDistance hav ul b = PosInf)
          (sortKeys lc hav es (cfg\<lparr>mode := ''distance''\<rparr>) (Some ul)))"
proof -
  let ?out = "sortKeys lc hav es (cfg\<lparr>mode := ''distance''\<rparr>) (Some ul)"
  let ?d = "getDistance hav ul"
  have inf: "firstKeyLocation x = None \<Longrightarrow> ?d x = PosInf" for x
    by (simp add: getDistance_def)
  have top: "distLe PosInf y \<Longrightarrow> y = PosInf" for y by (cases y) simp_all
  have p: "mset ?out = mset es"
    by (simp add: sortKeys_distance_eq arraySortNum_def mset_sortBy)
  have s: "sorted_wrt (\<lambda>a b. if distance (directions cfg) = ''desc'' then distLe (?d b) (?d a)
                              else distLe (?d a) (?d b)) ?out"
    unfolding sortKeys_distance_eq by (rule sort_distance_sorted)
  have desc: "sorted_wrt (\<lambda>a b. distLe (?d b) (?d a)) ?out
              \<and> sorted_wrt (\<lambda>a b. firstKeyLocation b = None \<longrightarrow> ?d a = PosInf) ?out"
    if "distance (directions cfg) = ''desc''"
  proof -
    have 1: "sorted_wrt (\<lambda>a b. distLe (?d b) (?d a)) ?out" using s that by simp
    have "sorted_wrt (\<lambda>a b. firstKeyLocation b = None \<longrightarrow> ?d a = PosInf) ?out"
      using 1 by (rule sorted_wrt_mono_rel[rotated]) (use inf top in force)
    then show ?thesis using 1 by simp
  qed
  have asc: "sorted_wrt (\<lambda>a b. distLe (?d a) (?d b)) ?out
              \<and> sorted_wrt (\<lambda>a b. firstKeyLocation a = None \<longrightarrow> ?d b = PosInf) ?out"
    if "distance (directions cfg) \<noteq> ''desc''"
  proof -
    have 1: "sorted_wrt (\<lambda>a b. distLe (?d a) (?d b)) ?out" using s that by simp
    have "sorted_wrt (\<lambda>a b. firstKeyLocation a = None \<longrightarrow> ?d b = PosInf) ?out"
      using 1 by (rule sorted_wrt_mono_rel[rotated]) (use inf top in force)
    then show ?thesis using 1 by simp
  qed
  show ?thesis
    using firstKeyLocation_None_iff[of e] inf[of e] p desc asc by blast
qed

lemma exKeys_grouped: "entriesOf (groupItems exKeys) ''Keys'' = [exBetaEntry, exAlphaEntry]"
proof -
  have r: "rawTypeOf (keyMeta t l) = Some ''PORTAL_LINK_KEY''" for t l
    by (simp add: rawTypeOf_def keyMeta_def plainRes_def opt_get_def js_or_def truthy_def)
  have d: "getDisplayType (Some ''PORTAL_LINK_KEY'') = Some ''Keys''"
    by (simp add: getDisplayType_def)
  have t: "displayTitle i (keyMeta ''Beta'' l) = ''Beta''"
          "displayTitle i (keyMeta ''Alpha'' l) = ''Alpha''" for i l
    by (simp_all add: displayTitle_def keyMeta_def opt_get_def js_or_def truthy_def)
  have k: "groupKeyOf (i, ts, keyMeta ''Beta'' l) = ''Beta''"
          "groupKeyOf (i, ts, keyMeta ''Alpha'' l) = ''Alpha''" for i ts l
    by (simp_all add: groupKeyOf_def r d t needsTypeInKey_def)
  have dt: "displayTypeOf (i, ts, keyMeta ti l) = Some ''Keys''" for i ts ti l
    by (simp add: displayTypeOf_def r d)
  have g: "newGmeta (i, ts, keyMeta ''Beta'' l) =
             \<lparr>gmDisplayType = Some ''Keys'', gmTitle = ''Beta'', gmLevel = 0,
              weaponType = None, cubeType = None, modType = None, gmRarity = None\<rparr>"
          "newGmeta (i, ts, keyMeta ''Alpha'' l) =
             \<lparr>gmDisplayType = Some ''Keys'', gmTitle = ''Alpha'', gmLevel = 0,
              weaponType = None, cubeType = None, modType = None, gmRarity = None\<rparr>" for i ts l
    by (simp_all add: newGmeta_def r d t Let_def)
  show ?thesis
    by (simp add: exKeys_def groupItems_def groupStep_def entriesOf_def k dt g Let_def
        exBetaEntry_def exAlphaEntry_def)
qed

lemma exEntries_distance:
  "getDistance exHaversine exLocation exBetaEntry = Num (2 / 100000)"
  "firstKeyLocation exAlphaEntry = None"
  "getDistance exHaversine exLocation exAlphaEntry = PosInf"
  by (simp_all add: exBetaEntry_def exAlphaEntry_def getDistance_def firstKeyLocation_def
      keyMeta_def opt_get_def decode_example exHaversine_def exLocation_def)

lemma exEntries_sorted:
  "sortKeys codeCompare exHaversine [exBetaEntry, exAlphaEntry] (exConfig ''distance'' ''desc'')
     (Some exLocation) = [exAlphaEntry, exBetaEntry]"
  "sortKeys codeCompare exHaversine [exBetaEntry, exAlphaEntry] (exConfig ''distance'' ''asc'')
     (Some exLocation) = [exBetaEntry, exAlphaEntry]"
  by (simp_all add: sortKeys_def exConfig_def arraySortNum_def keysDistanceCompare_def
      exEntries_distance)

theorem sortKeys_distance_unknown_location_witness:
  "firstKeyLocation exAlphaEntry = None
   \<and> getDistance exHaversine exLocation exAlphaEntry = PosInf
   \<and> distance (directions (exConfig ''distance'' ''desc'')) = ''desc''
   \<and> sorted_wrt (\<lambda>a b. firstKeyLocation b = None \<longrightarrow> getDistance exHaversine exLocation a = PosInf)
       (sortKeys codeCompare exHaversine (entriesOf (groupItems exKeys) ''Keys'')
          (exConfig ''distance'' ''desc'') (Some exLocation))
   \<and> sortKeys codeCompare exHaversine (entriesOf (groupItems exKeys) ''Keys'')
          (exConfig ''distance'' ''desc'') (Some exLocation) = [exAlphaEntry, exBetaEntry]
   \<and> distance (directions (exConfig ''distance'' ''asc'')) \<noteq> ''desc''
   \<and> sorted_wrt (\<lambda>a b. firstKeyLocation a = None \<longrightarrow> getDistance exHaversine exLocation b = PosInf)
       (sortKeys codeCompare exHaversine (entriesOf (groupItems exKeys) ''Keys'')
          (exConfig ''distance'' ''asc'') (Some exLocation))
   \<and> sortKeys codeCompare exHaversine (entriesOf (groupItems exKeys) ''Keys'')
          (exConfig ''distance'' ''asc'') (Some exLocation) = [exBetaEntry, exAlphaEntry]"
proof -
  have m: "(exConfig ''distance'' d)\<lparr>mode := ''distance''\<rparr> = exConfig ''distance'' d" for d
    by (simp add: exConfig_def)
  have dd: "distance (directions (exConfig ''distance'' d)) = d" for d
    by (simp add: exConfig_def)
  show ?thesis
    using sortKeys_distance_unknown_location[of exAlphaEntry exHaversine exLocation
        codeCompare "[exBetaEntry, exAlphaEntry]" "exConfig ''distance'' ''desc''"]
      sortKeys_distance_unknown_location[of exAlphaEntry exHaversine exLocation
        codeCompare "[exBetaEntry, exAlphaEntry]" "exConfig ''distance'' ''asc''"]
    unfolding m dd exKeys_grouped
    by (simp add: exEntries_distance exEntries_sorted)
qed

section \<open>Tie-breaks of the comparators\<close>

lemma titleOfKey_takeWhile: "titleOfKey k = takeWhile (\<lambda>c. c \<noteq> CHR ''|'') k"
  using hd_splitOn[of "CHR ''|''" k] splitOn_nonempty[of "CHR ''|''" k]
  by (cases "splitOn (CHR ''|'') k") (simp_all add: titleOfKey_def)

lemma titleOfKey_idem: "titleOfKey (titleOfKey k) = titleOfKey k"
  by (simp add: titleOfKey_takeWhile)

lemma arraySort_stable:
  assumes "\<forall>x y. P x \<and> P y \<longrightarrow> cmp x y = (0 :: int)"
  shows "filter P (arraySort cmp xs) = filter P xs"
  unfolding arraySort_def
  by (rule filter_sortBy) (use assms in simp)

lemma arraySortNum_stable:
  assumes "\<forall>x y. P x \<and> P y \<longrightarrow> \<not> positive (cmp x y)"
  shows "filter P (arraySortNum cmp xs) = filter P xs"
  unfolding arraySortNum_def
  by (rule filter_sortBy) (use assms in simp)

lemma distance_tie:
  assumes "getDistance hav ul a = getDistance hav ul b"
  shows "\<not> positive (keysDistanceCompare hav ul dir a b)"
  using assms getDistance_range[of hav ul b]
  by (auto simp: keysDistanceCompare_def Let_def)

lemma title_fallbacks:
  "weaponRank a = weaponRank b \<and> gmLevel (gmeta (snd a)) = gmLevel (gmeta (snd b))
     \<longrightarrow> weaponsCompare lc a b = lc (titleOfKey (fst a)) (titleOfKey (fst b))"
  "orEmpty (modType (gmeta (snd a))) = orEmpty (modType (gmeta (snd b)))
     \<and> rarityRank (orEmpty (gmRarity (gmeta (snd a)))) = rarityRank (orEmpty (gmRarity (gmeta (snd b))))
     \<longrightarrow> modsCompare lc a b = lc (titleOfKey (fst a)) (titleOfKey (fst b))"
  "length (items (snd a)) = length (items (snd b))
     \<longrightarrow> powerupsCompare lc a b = lc (titleOfKey (fst a)) (titleOfKey (fst b))"
  "defaultCompare lc a b = lc (titleOfKey (fst a)) (titleOfKey (fst b))"
  "keysAlphaCompare lc dir a b =
     (if dir = ''desc'' then lc (titleOfKey (fst b)) (titleOfKey (fst a))
      else lc (titleOfKey (fst a)) (titleOfKey (fst b)))"
  by (simp_all add: weaponsCompare_def weaponRank_def modsCompare_def powerupsCompare_def
      defaultCompare_def keysAlphaCompare_def Let_def)

lemma no_fallbacks:
  "gmLevel (gmeta (snd a)) = gmLevel (gmeta (snd b)) \<longrightarrow> resonatorsCompare a b = 0"
  "orEmpty (cubeType (gmeta (snd a))) = orEmpty (cubeType (gmeta (snd b)))
     \<and> gmLevel (gmeta (snd a)) = gmLevel (gmeta (snd b))
     \<longrightarrow> cubesCompare lc a b = 0"
  "length (items (snd a)) = length (items (snd b)) \<longrightarrow> keysCountCompare dir a b = 0"
  "latestTs a = latestTs b \<longrightarrow> keysTimeCompare dir a b = 0"
  by (simp_all add: resonatorsCompare_def cubesCompare_def keysCountCompare_def
      keysTimeCompare_def Let_def)

lemma key_only_by_title:
  "weaponsCompare lc (ka, ba) (kb, bb) = weaponsCompare lc (titleOfKey ka, ba) (titleOfKey kb, bb)"
  "modsCompare lc (ka, ba) (kb, bb) = modsCompare lc (titleOfKey ka, ba) (titleOfKey kb, bb)"
  "powerupsCompare lc (ka, ba) (kb, bb) = powerupsCompare lc (titleOfKey ka, ba) (titleOfKey kb, bb)"
  "defaultCompare lc (ka, ba) (kb, bb) = defaultCompare lc (titleOfKey ka, ba) (titleOfKey kb, bb)"
  "keysAlphaCompare lc dir (ka, ba) (kb, bb) =
     keysAlphaCompare lc dir (titleOfKey ka, ba) (titleOfKey kb, bb)"
  "resonatorsCompare (ka, ba) (kb, bb) = resonatorsCompare (ka', ba) (kb', bb)"
  "cubesCompare lc (ka, ba) (kb, bb) = cubesCompare lc (ka', ba) (kb', bb)"
  "keysCountCompare dir (ka, ba) (kb, bb) = keysCountCompare dir (ka', ba) (kb', bb)"
  "keysTimeCompare dir (ka, ba) (kb, bb) = keysTimeCompare dir (ka', ba) (kb', bb)"
  "keysDistanceCompare hav ul dir (ka, ba) (kb, bb) =
     keysDistanceCompare hav ul dir (ka', ba) (kb', bb)"
  by (simp_all add: weaponsCompare_def modsCompare_def powerupsCompare_def defaultCompare_def
      keysAlphaCompare_def resonatorsCompare_def cubesCompare_def keysCountCompare_def
      keysTimeCompare_def keysDistanceCompare_def latestTs_def getDistance_def
      firstKeyLocation_def titleOfKey_idem Let_def)

text \<open>
  C2 (amended). Once their earlier keys are equal, the Weapons, Mods and Powerups
  comparators, the default comparator and the alphabetical mode of Keys return the
  comparison of the titles. The Resonators and Cubes comparators and the count, time and
  distance modes of Keys have no such fallback: on equal primary keys they return 0
  (the distance mode a result that is not positive either way). No comparator reads
  more of the group key than its title part. Entries that a comparator reports equal
  keep the order they had in the input, the sort being stable.
\<close>

theorem comparators_tie_breaks:
  "(weaponRank a = weaponRank b \<and> gmLevel (gmeta (snd a)) = gmLevel (gmeta (snd b))
      \<longrightarrow> weaponsCompare lc a b = lc (titleOfKey (fst a)) (titleOfKey (fst b)))
   \<and> (orEmpty (modType (gmeta (snd a))) = orEmpty (modType (gmeta (snd b)))
      \<and> rarityRank (orEmpty (gmRarity (gmeta (snd a)))) = rarityRank (orEmpty (gmRarity (gmeta (snd b))))
      \<longrightarrow> modsCompare lc a b = lc (titleOfKey (fst a)) (titleOfKey (fst b)))
   \<and> (length (items (snd a)) = length (items (snd b))
      \<longrightarrow> powerupsCompare lc a b = lc (titleOfKey (fst a)) (titleOfKey (fst b)))
   \<and> defaultCompare lc a b = lc (titleOfKey (fst a)) (titleOfKey (fst b))
   \<and> keysAlphaCompare lc dir a b =
       (if dir = ''desc'' then lc (titleOfKey (fst b)) (titleOfKey (fst a))
        else lc (titleOfKey (fst a)) (titleOfKey (fst b)))
   \<and> (gmLevel (gmeta (snd a)) = gmLevel (gmeta (snd b)) \<longrightarrow> resonatorsCompare a b = 0)
   \<and> (orEmpty (cubeType (gmeta (snd a))) = orEmpty (cubeType (gmeta (snd b)))
      \<and> gmLevel (gmeta (snd a)) = gmLevel (gmeta (snd b))
      \<longrightarrow> cubesCompare lc a b = 0)
   \<and> (length (items (snd a)) = length (items (snd b)) \<longrightarrow> keysCountCompare dir a b = 0)
   \<and> (latestTs a = latestTs b \<longrightarrow> keysTimeCompare dir a b = 0)
   \<and> (getDistance hav ul a = getDistance hav ul b
      \<longrightarrow> \<not> positive (keysDistanceCompare hav ul dir a b)
        \<and> \<not> positive (keysDistanceCompare hav ul dir b a))
   \<and> weaponsCompare lc (ka, ba) (kb, bb) = weaponsCompare lc (titleOfKey ka, ba) (titleOfKey kb, bb)
   \<and> modsCompare lc (ka, ba) (kb, bb) = modsCompare lc (titleOfKey ka, ba) (titleOfKey kb, bb)
   \<and> powerupsCompare lc (ka, ba) (kb, bb) = powerupsCompare lc (titleOfKey ka, ba) (titleOfKey kb, bb)
   \<and> defaultCompare lc (ka, ba) (kb, bb) = defaultCompare lc (titleOfKey ka, ba) (titleOfKey kb, bb)
   \<and> keysAlphaCompare lc dir (ka, ba) (kb, bb) =
       keysAlphaCompare lc dir (titleOfKey ka, ba) (titleOfKey kb, bb)
   \<and> resonatorsCompare (ka, ba) (kb, bb) = resonatorsCompare (ka', ba) (kb', bb)
   \<and> cubesCompare lc (ka, ba) (kb, bb) = cubesCompare lc (ka', ba) (kb', bb)
   \<and> keysCountCompare dir (ka, ba) (kb, bb) = keysCountCompare dir (ka', ba) (kb', bb)
   \<and> keysTimeCompare dir (ka, ba) (kb, bb) = keysTimeCompare dir (ka', ba) (kb', bb)
   \<and> keysDistanceCompare hav ul dir (ka, ba) (kb, bb) =
       keysDistanceCompare hav ul dir (ka', ba) (kb', bb)
   \<and> ((\<forall>x y. P x \<and> P y \<longrightarrow> cmp x y = 0) \<longrightarrow> filter P (arraySort cmp xs) = filter P xs)
   \<and> ((\<forall>x y. P x \<and> P y \<longrightarrow> \<not> positive (cmpn x y))
      \<longrightarrow> filter P (arraySortNum cmpn xs) = filter P xs)"
proof -
  have d: "getDistance hav ul a = getDistance hav ul b
      \<longrightarrow> \<not> positive (keysDistanceCompare hav ul dir a b)
        \<and> \<not> positive (keysDistanceCompare hav ul dir b a)"
    using distance_tie[of hav ul a b dir] distance_tie[of hav ul b a dir] by simp
  have s1: "(\<forall>x y. P x \<and> P y \<longrightarrow> cmp x y = 0) \<longrightarrow> filter P (arraySort cmp xs) = filter P xs"
    using arraySort_stable[of P cmp xs] by blast
  have s2: "(\<forall>x y. P x \<and> P y \<longrightarrow> \<not> positive (cmpn x y))
      \<longrightarrow> filter P (arraySortNum cmpn xs) = filter P xs"
    using arraySortNum_stable[of P cmpn xs] by blast
  show ?thesis
    by (intro conjI title_fallbacks no_fallbacks key_only_by_title d s1 s2)
qed

lemma codeCompare_Beta_Alpha: "0 < codeCompare ''Beta'' ''Alpha''"
  by (simp add: codeCompare_def less_char_def)

text \<open>
  C2 as stated fails: two key groups, Beta and Alpha, of one key each. In count mode the
  comparator returns 0 for them although their titles and keys differ, and the sort
  leaves Beta ahead of Alpha, where a title fallback would put Alpha first.
\<close>

theorem comparators_title_fallback_counterexample:
  "keysCountCompare ''asc'' exBetaEntry exAlphaEntry = 0
   \<and> fst exBetaEntry \<noteq> fst exAlphaEntry
   \<and> 0 < codeCompare (titleOfKey (fst exBetaEntry)) (titleOfKey (fst exAlphaEntry))
   \<and> sortTypeGroups codeCompare exHaversine (entriesOf (groupItems exKeys) ''Keys'') ''Keys''
       (exConfig ''count'' ''asc'') None = [exBetaEntry, exAlphaEntry]"
proof -
  have t: "titleOfKey (fst exBetaEntry) = ''Beta''" "titleOfKey (fst exAlphaEntry) = ''Alpha''"
    by (simp_all add: exBetaEntry_def exAlphaEntry_def titleOfKey_def)
  have c: "keysCountCompare d exBetaEntry exAlphaEntry = 0" for d
    by (simp add: keysCountCompare_def exBetaEntry_def exAlphaEntry_def)
  have "sortTypeGroups codeCompare exHaversine [exBetaEntry, exAlphaEntry] ''Keys''
          (exConfig ''count'' ''asc'') None = [exBetaEntry, exAlphaEntry]"
    by (simp add: sortTypeGroups_def sortKeys_def exConfig_def arraySort_def c)
  then show ?thesis
    using c[of "''asc''"] codeCompare_Beta_Alpha
    by (simp add: t exKeys_grouped) (simp add: exBetaEntry_def exAlphaEntry_def)
qed

theorem comparators_tie_breaks_witness:
  "resonatorsCompare (''Beta'', exBucket) (''Alpha'', exBucket) = 0
   \<and> keysCountCompare ''asc'' (''Beta'', exBucket) (''Alpha'', exBucket) = 0
   \<and> weaponsCompare codeCompare (''Beta'', exBucket) (''Alpha'', exBucket)
       = codeCompare ''Beta'' ''Alpha''
   \<and> filter (\<lambda>e. snd e = exBucket)
        (arraySort resonatorsCompare [(''Beta'', exBucket), (''Alpha'', exBucket)])
       = [(''Beta'', exBucket), (''Alpha'', exBucket)]
   \<and> filter (\<lambda>e. snd e = exBucket)
        (arraySortNum (keysDistanceCompare exHaversine exLocation ''asc'')
           [(''Beta'', exBucket), (''Alpha'', exBucket)])
       = [(''Beta'', exBucket), (''Alpha'', exBucket)]"
proof -
  have t: "titleOfKey ''Beta'' = ''Beta''" "titleOfKey ''Alpha'' = ''Alpha''"
    by (simp_all add: titleOfKey_def)
  have r: "\<forall>x y. snd x = exBucket \<and> snd y = exBucket \<longrightarrow> resonatorsCompare x y = 0"
    by (simp add: resonatorsCompare_def)
  have g: "\<forall>x y. snd x = exBucket \<and> snd y = exBucket \<longrightarrow>
             \<not> positive (keysDistanceCompare exHaversine exLocation ''asc'' x y)"
  proof (intro allI impI)
    fix x y :: entry assume "snd x = exBucket \<and> snd y = exBucket"
    then have "getDistance exHaversine exLocation x = getDistance exHaversine exLocation y"
      by (simp add: getDistance_def firstKeyLocation_def)
    then show "\<not> positive (keysDistanceCompare exHaversine exLocation ''asc'' x y)"
      by (rule distance_tie)
  qed
  show ?thesis
    using comparators_tie_breaks[of "(''Beta'', exBucket)" "(''Alpha'', exBucket)" codeCompare
        "''asc''" exHaversine exLocation "''Beta''" exBucket "''Alpha''" exBucket "''x''" "''y''"
        "\<lambda>e. snd e = exBucket" resonatorsCompare "[(''Beta'', exBucket), (''Alpha'', exBucket)]"
        "keysDistanceCompare exHaversine exLocation ''asc''"] r g
    by (simp add: t weaponRank_def latestTs_def)
qed

section \<open>sortKeys: distance mode without a location\<close>









end
